theory Spec2Isabelle
  imports Complex_Main
begin

section \<open>Value types\<close>

text \<open>
  Modelled from the spec: \<^verbatim>\<open>tinyman/assets.py\<close> is not among the sources. An Asset is a
  numeric id plus display metadata, and two assets are equal iff their ids are equal; the
  source's \<^verbatim>\<open>==\<close> on assets is \<open>asset_eq\<close>. An AssetAmount is an integer amount tagged with
  its asset.
\<close>

record asset =
  asset_id :: int
  unit_name :: string
  decimals :: int

definition asset_eq :: "asset \<Rightarrow> asset \<Rightarrow> bool" where
  "asset_eq a b = (asset_id a = asset_id b)"

record asset_amount =
  asset :: asset
  amount :: int

section \<open>Errors\<close>

text \<open>
  Exceptions raised inside the imported helper modules, which are not among the sources,
  are kept apart from the exceptions that \<^verbatim>\<open>pools.py\<close> raises itself.
\<close>

datatype lib_exception = ZeroDivisionError | OtherException string

datatype error =
    AlreadyBootstrapped
  | BootstrapIsRequired
  | PoolHasNoLiquidity
  | PoolAlreadyHasLiquidity
  | AssertionError string
  | TypeError
  | KeyError
  | AttributeError
  | Raised lib_exception

section \<open>The ledger's account information and the decoded pool information\<close>

record teal_value =
  tv_type :: int
  tv_bytes :: string
  tv_uint :: int

record app_local_state =
  app_id :: int
  key_value :: "(string \<times> teal_value) list"

record account_info =
  ai_address :: string
  ai_amount :: int
  ai_round :: int
  apps_local_state :: "app_local_state list"

text \<open>The dictionary that \<^verbatim>\<open>get_pool_info_from_account_info\<close> builds, key by key.\<close>

record pool_info =
  info_address :: string
  info_asset_1_id :: int
  info_asset_2_id :: int
  info_pool_token_asset_id :: "int option"
  info_asset_1_reserves :: int
  info_asset_2_reserves :: int
  info_issued_pool_tokens :: int
  info_asset_1_protocol_fees :: int
  info_asset_2_protocol_fees :: int
  info_asset_1_cumulative_price :: int
  info_asset_2_cumulative_price :: int
  info_cumulative_price_update_timestamp :: int
  info_total_fee_share :: int
  info_protocol_fee_ratio :: int
  info_validator_app_id :: int
  info_algo_balance :: int
  info_round :: int

section \<open>What the module imports and what the client reaches\<close>

text \<open>
  \<^verbatim>\<open>pools.py\<close> calls the client (asset registry, ledger reads) and the modules
  \<^verbatim>\<open>utils\<close>, \<^verbatim>\<open>contracts\<close> and \<^verbatim>\<open>formulas\<close>, none of which is among the sources. They are
  parameters of the model, collected in one record that every operation receives. A
  formula either raises or returns its tuple; the price impact, a float in the source, is
  a rational that the pool only passes on.
\<close>

record env =
  client_validator_app_id :: int
  client_user_address :: string
  fetch_asset :: "int option \<Rightarrow> asset"
  algod_account_info :: "string \<Rightarrow> account_info"
  get_pool_logicsig_address :: "int \<Rightarrow> int \<Rightarrow> int \<Rightarrow> string"
  get_state_int :: "(string \<rightharpoonup> teal_value) \<Rightarrow> string \<Rightarrow> int"
  get_state_bytes :: "(string \<rightharpoonup> teal_value) \<Rightarrow> string \<Rightarrow> string"
  bytes_to_int :: "string \<Rightarrow> int"
  calculate_subsequent_add_liquidity ::
    "int \<Rightarrow> int \<Rightarrow> int \<Rightarrow> int \<Rightarrow> int \<Rightarrow> int
      \<Rightarrow> lib_exception + (int \<times> bool \<times> int \<times> int \<times> int \<times> rat)"
  calculate_initial_add_liquidity :: "int \<Rightarrow> int \<Rightarrow> lib_exception + int"
  calculate_fixed_input_swap ::
    "int \<Rightarrow> int \<Rightarrow> int \<Rightarrow> int \<Rightarrow> lib_exception + (int \<times> int \<times> rat)"
  calculate_remove_liquidity_output_amounts ::
    "int \<Rightarrow> int \<Rightarrow> int \<Rightarrow> int \<Rightarrow> lib_exception + (int \<times> int)"
  calculate_fixed_output_swap ::
    "int \<Rightarrow> int \<Rightarrow> int \<Rightarrow> int \<Rightarrow> lib_exception + (int \<times> int \<times> rat)"

section \<open>Decoding the pool information\<close>

text \<open>
  \<^verbatim>\<open>account_info["apps-local-state"][0]\<close> raises IndexError on an empty list, which the
  source catches and answers with the empty dictionary: \<open>None\<close> here. The dictionary
  comprehension keeps the last value of a repeated key. The assertion on the address is
  a branch of its own.
\<close>

definition get_pool_info_from_account_info :: "env \<Rightarrow> account_info \<Rightarrow> error + pool_info option" where
  "get_pool_info_from_account_info E account =
     (case apps_local_state account of
        [] \<Rightarrow> Inr None
      | local_state # _ \<Rightarrow>
          (let validator_app_id = app_id local_state;
               validator_app_state = map_of (rev (key_value local_state));
               asset_1_id = get_state_int E validator_app_state ''asset_1_id'';
               asset_2_id = get_state_int E validator_app_state ''asset_2_id'';
               pool_address = get_pool_logicsig_address E validator_app_id asset_1_id asset_2_id
           in if ai_address account \<noteq> pool_address then Inl (AssertionError [])
              else Inr (Some \<lparr>
                info_address = pool_address,
                info_asset_1_id = asset_1_id,
                info_asset_2_id = asset_2_id,
                info_pool_token_asset_id =
                  Some (get_state_int E validator_app_state ''pool_token_asset_id''),
                info_asset_1_reserves = get_state_int E validator_app_state ''asset_1_reserves'',
                info_asset_2_reserves = get_state_int E validator_app_state ''asset_2_reserves'',
                info_issued_pool_tokens =
                  get_state_int E validator_app_state ''issued_pool_tokens'',
                info_asset_1_protocol_fees =
                  get_state_int E validator_app_state ''asset_1_protocol_fees'',
                info_asset_2_protocol_fees =
                  get_state_int E validator_app_state ''asset_2_protocol_fees'',
                info_asset_1_cumulative_price =
                  bytes_to_int E (get_state_bytes E validator_app_state ''asset_1_cumulative_price''),
                info_asset_2_cumulative_price =
                  bytes_to_int E (get_state_bytes E validator_app_state ''asset_2_cumulative_price''),
                info_cumulative_price_update_timestamp =
                  get_state_int E validator_app_state ''cumulative_price_update_timestamp'',
                info_total_fee_share = get_state_int E validator_app_state ''total_fee_share'',
                info_protocol_fee_ratio =
                  get_state_int E validator_app_state ''protocol_fee_ratio'',
                info_validator_app_id = validator_app_id,
                info_algo_balance = ai_amount account,
                info_round = ai_round account \<rparr>)))"

definition get_pool_info :: "env \<Rightarrow> int \<Rightarrow> int \<Rightarrow> int \<Rightarrow> error + pool_info option" where
  "get_pool_info E validator_app_id asset_1_id asset_2_id =
     get_pool_info_from_account_info E
       (algod_account_info E (get_pool_logicsig_address E validator_app_id asset_1_id asset_2_id))"

section \<open>The pool\<close>

text \<open>
  The constructor sets \<^verbatim>\<open>exists\<close> and the ten snapshot attributes to None, and
  \<^verbatim>\<open>update_from_info\<close> assigns the ten together: they are None together or set together,
  which is \<open>snapshot = None\<close> or \<open>Some\<close>. \<^verbatim>\<open>exists\<close> is None or True in the source; None is
  False here, and it is False while the snapshot is None.
\<close>

record snapshot =
  exists :: bool
  pool_token_asset :: asset
  asset_1_reserves :: int
  asset_2_reserves :: int
  issued_pool_tokens :: int
  asset_1_protocol_fees :: int
  asset_2_protocol_fees :: int
  total_fee_share :: int
  protocol_fee_ratio :: int
  last_refreshed_round :: int
  algo_balance :: int

record pool =
  validator_app_id :: int
  asset_1 :: asset
  asset_2 :: asset
  snapshot :: "snapshot option"

definition pool_exists :: "pool \<Rightarrow> bool" where
  "pool_exists p = (case snapshot p of None \<Rightarrow> False | Some s \<Rightarrow> exists s)"

definition update_from_info :: "env \<Rightarrow> pool \<Rightarrow> pool_info \<Rightarrow> pool" where
  "update_from_info E p info =
     p\<lparr> snapshot := Some \<lparr>
       exists = (if info_pool_token_asset_id info \<noteq> None then True else pool_exists p),
       pool_token_asset = fetch_asset E (info_pool_token_asset_id info),
       asset_1_reserves = info_asset_1_reserves info,
       asset_2_reserves = info_asset_2_reserves info,
       issued_pool_tokens = info_issued_pool_tokens info,
       asset_1_protocol_fees = info_asset_1_protocol_fees info,
       asset_2_protocol_fees = info_asset_2_protocol_fees info,
       total_fee_share = info_total_fee_share info,
       protocol_fee_ratio = info_protocol_fee_ratio info,
       last_refreshed_round = info_round info,
       algo_balance = info_algo_balance info \<rparr> \<rparr>"

text \<open>
  \<^verbatim>\<open>refresh(info=None)\<close>: without an argument the pool information is read from the ledger,
  and an empty answer returns before any attribute is written. An exception of the read
  leaves the pool as it was.
\<close>

definition refresh :: "env \<Rightarrow> pool \<Rightarrow> pool_info option \<Rightarrow> error + pool" where
  "refresh E p info =
     (case info of
        None \<Rightarrow>
          (case get_pool_info E (validator_app_id p) (asset_id (asset_1 p)) (asset_id (asset_2 p)) of
             Inl e \<Rightarrow> Inl e
           | Inr None \<Rightarrow> Inr p
           | Inr (Some fetched) \<Rightarrow> Inr (update_from_info E p fetched))
      | Some given \<Rightarrow> Inr (update_from_info E p given))"

text \<open>An argument of the constructor is an Asset or an asset id.\<close>

datatype asset_ref = AssetObj asset | AssetInt int

definition resolve_asset :: "env \<Rightarrow> asset_ref \<Rightarrow> asset" where
  "resolve_asset E r = (case r of AssetInt n \<Rightarrow> fetch_asset E (Some n) | AssetObj a \<Rightarrow> a)"

definition Pool_init ::
  "env \<Rightarrow> asset_ref \<Rightarrow> asset_ref \<Rightarrow> pool_info option \<Rightarrow> bool \<Rightarrow> int option \<Rightarrow> error + pool" where
  "Pool_init E asset_a asset_b info fetch app =
     (let a = resolve_asset E asset_a;
          b = resolve_asset E asset_b;
          p = \<lparr> validator_app_id = (case app of Some v \<Rightarrow> v | None \<Rightarrow> client_validator_app_id E),
                asset_1 = (if asset_id a > asset_id b then a else b),
                asset_2 = (if asset_id a > asset_id b then b else a),
                snapshot = None \<rparr>
      in if fetch then refresh E p None
         else (case info of Some given \<Rightarrow> Inr (update_from_info E p given) | None \<Rightarrow> Inr p))"

section \<open>Quotes\<close>

text \<open>
  \<^verbatim>\<open>quotes.py\<close> is not among the sources; the fields are the keyword arguments with which
  \<^verbatim>\<open>pools.py\<close> builds each quote. A dictionary keyed by Asset is a map keyed by the asset's
  id, by which assets are hashed and compared. The slippage, a float in the source, is a
  rational.
\<close>

record internal_swap_quote =
  isq_amount_in :: asset_amount
  isq_amount_out :: asset_amount
  isq_swap_fees :: asset_amount
  isq_price_impact :: rat

record flexible_add_liquidity_quote =
  faq_amounts_in :: "int \<rightharpoonup> asset_amount"
  faq_pool_token_asset_amount :: asset_amount
  faq_slippage :: rat
  faq_internal_swap_quote :: internal_swap_quote

record single_asset_add_liquidity_quote =
  saq_amount_in :: asset_amount
  saq_pool_token_asset_amount :: asset_amount
  saq_slippage :: rat
  saq_internal_swap_quote :: internal_swap_quote

record initial_add_liquidity_quote =
  iaq_amounts_in :: "int \<rightharpoonup> asset_amount"
  iaq_pool_token_asset_amount :: asset_amount

record remove_liquidity_quote =
  rlq_amounts_out :: "int \<rightharpoonup> asset_amount"
  rlq_pool_token_asset_amount :: asset_amount
  rlq_slippage :: rat

record single_asset_remove_liquidity_quote =
  sarq_amount_out :: asset_amount
  sarq_pool_token_asset_amount :: asset_amount
  sarq_slippage :: rat
  sarq_internal_swap_quote :: internal_swap_quote

record swap_quote =
  sq_swap_type :: string
  sq_amount_in :: asset_amount
  sq_amount_out :: asset_amount
  sq_swap_fees :: asset_amount
  sq_slippage :: rat
  sq_price_impact :: rat

section \<open>Fetching quotes\<close>

text \<open>
  Every operation returns what the call returns or raises, paired with the pool as the
  call leaves it. \<^verbatim>\<open>not self.exists\<close> holds while the snapshot is None.
  \<^verbatim>\<open>int(swap_total_fee_amount)\<close> is the identity on the integer fee.
\<close>

definition assets_match :: "pool \<Rightarrow> asset_amount \<Rightarrow> asset_amount \<Rightarrow> bool" where
  "assets_match p amount_a amount_b =
     ({asset_id (asset_1 p), asset_id (asset_2 p)} =
      {asset_id (asset amount_a), asset_id (asset amount_b)})"

definition fetch_flexible_add_liquidity_quote ::
  "env \<Rightarrow> pool \<Rightarrow> asset_amount \<Rightarrow> asset_amount \<Rightarrow> rat
    \<Rightarrow> (error + flexible_add_liquidity_quote) \<times> pool" where
  "fetch_flexible_add_liquidity_quote E p amount_a amount_b slippage =
     (if \<not> assets_match p amount_a amount_b
      then (Inl (AssertionError ''Pool assets and given assets don't match.''), p)
      else
        (let amount_1 = (if asset_eq (asset amount_a) (asset_1 p) then amount_a else amount_b);
             amount_2 = (if asset_eq (asset amount_a) (asset_2 p) then amount_a else amount_b)
         in case refresh E p None of
              Inl e \<Rightarrow> (Inl e, p)
            | Inr p' \<Rightarrow>
                (case snapshot p' of
                   None \<Rightarrow> (Inl BootstrapIsRequired, p')
                 | Some s \<Rightarrow>
                     if \<not> exists s then (Inl BootstrapIsRequired, p')
                     else if issued_pool_tokens s = 0 then (Inl PoolHasNoLiquidity, p')
                     else
                       (case calculate_subsequent_add_liquidity E
                               (asset_1_reserves s) (asset_2_reserves s) (issued_pool_tokens s)
                               (total_fee_share s) (amount amount_1) (amount amount_2) of
                          Inl x \<Rightarrow> (Inl (Raised x), p')
                        | Inr (pool_token_asset_amount, swap_from_asset_1_to_asset_2,
                               swap_in_amount, swap_out_amount, swap_total_fee_amount,
                               swap_price_impact) \<Rightarrow>
                            (Inr \<lparr>
                               faq_amounts_in =
                                 [asset_id (asset_1 p') \<mapsto> amount_1,
                                  asset_id (asset_2 p') \<mapsto> amount_2],
                               faq_pool_token_asset_amount =
                                 \<lparr> asset = pool_token_asset s, amount = pool_token_asset_amount \<rparr>,
                               faq_slippage = slippage,
                               faq_internal_swap_quote = \<lparr>
                                 isq_amount_in =
                                   \<lparr> asset = (if swap_from_asset_1_to_asset_2
                                                then asset_1 p' else asset_2 p'),
                                     amount = swap_in_amount \<rparr>,
                                 isq_amount_out =
                                   \<lparr> asset = (if swap_from_asset_1_to_asset_2
                                                then asset_2 p' else asset_1 p'),
                                     amount = swap_out_amount \<rparr>,
                                 isq_swap_fees =
                                   \<lparr> asset = (if swap_from_asset_1_to_asset_2
                                                then asset_1 p' else asset_2 p'),
                                     amount = swap_total_fee_amount \<rparr>,
                                 isq_price_impact = swap_price_impact \<rparr> \<rparr>, p')))))"

definition fetch_single_asset_add_liquidity_quote ::
  "env \<Rightarrow> pool \<Rightarrow> asset_amount \<Rightarrow> rat
    \<Rightarrow> (error + single_asset_add_liquidity_quote) \<times> pool" where
  "fetch_single_asset_add_liquidity_quote E p amount_a slippage =
     (case refresh E p None of
        Inl e \<Rightarrow> (Inl e, p)
      | Inr p' \<Rightarrow>
          (case snapshot p' of
             None \<Rightarrow> (Inl BootstrapIsRequired, p')
           | Some s \<Rightarrow>
               if \<not> exists s then (Inl BootstrapIsRequired, p')
               else if issued_pool_tokens s = 0 then (Inl PoolHasNoLiquidity, p')
               else
                 (let calculated =
                        (if asset_eq (asset amount_a) (asset_1 p')
                         then map_sum Raised id
                                (calculate_subsequent_add_liquidity E
                                   (asset_1_reserves s) (asset_2_reserves s)
                                   (issued_pool_tokens s) (total_fee_share s)
                                   (amount amount_a) 0)
                         else if asset_eq (asset amount_a) (asset_2 p')
                         then map_sum Raised id
                                (calculate_subsequent_add_liquidity E
                                   (asset_1_reserves s) (asset_2_reserves s)
                                   (issued_pool_tokens s) (total_fee_share s)
                                   0 (amount amount_a))
                         else Inl (AssertionError
                                ''Given asset doesn't belong to the pool assets.''))
                  in case calculated of
                       Inl e \<Rightarrow> (Inl e, p')
                     | Inr (pool_token_asset_amount, swap_from_asset_1_to_asset_2,
                            swap_in_amount, swap_out_amount, swap_total_fee_amount,
                            swap_price_impact) \<Rightarrow>
                         (Inr \<lparr>
                            saq_amount_in = amount_a,
                            saq_pool_token_asset_amount =
                              \<lparr> asset = pool_token_asset s, amount = pool_token_asset_amount \<rparr>,
                            saq_slippage = slippage,
                            saq_internal_swap_quote = \<lparr>
                              isq_amount_in =
                                \<lparr> asset = (if swap_from_asset_1_to_asset_2
                                             then asset_1 p' else asset_2 p'),
                                  amount = swap_in_amount \<rparr>,
                              isq_amount_out =
                                \<lparr> asset = (if swap_from_asset_1_to_asset_2
                                             then asset_2 p' else asset_1 p'),
                                  amount = swap_out_amount \<rparr>,
                              isq_swap_fees =
                                \<lparr> asset = (if swap_from_asset_1_to_asset_2
                                             then asset_1 p' else asset_2 p'),
                                  amount = swap_total_fee_amount \<rparr>,
                              isq_price_impact = swap_price_impact \<rparr> \<rparr>, p'))))"

definition fetch_initial_add_liquidity_quote ::
  "env \<Rightarrow> pool \<Rightarrow> asset_amount \<Rightarrow> asset_amount
    \<Rightarrow> (error + initial_add_liquidity_quote) \<times> pool" where
  "fetch_initial_add_liquidity_quote E p amount_a amount_b =
     (if \<not> assets_match p amount_a amount_b
      then (Inl (AssertionError ''Pool assets and given assets don't match.''), p)
      else
        (let amount_1 = (if asset_eq (asset amount_a) (asset_1 p) then amount_a else amount_b);
             amount_2 = (if asset_eq (asset amount_a) (asset_2 p) then amount_a else amount_b)
         in case refresh E p None of
              Inl e \<Rightarrow> (Inl e, p)
            | Inr p' \<Rightarrow>
                (case snapshot p' of
                   None \<Rightarrow> (Inl BootstrapIsRequired, p')
                 | Some s \<Rightarrow>
                     if \<not> exists s then (Inl BootstrapIsRequired, p')
                     else if issued_pool_tokens s \<noteq> 0 then (Inl PoolAlreadyHasLiquidity, p')
                     else
                       (case calculate_initial_add_liquidity E (amount amount_1) (amount amount_2) of
                          Inl x \<Rightarrow> (Inl (Raised x), p')
                        | Inr pool_token_asset_amount \<Rightarrow>
                            (Inr \<lparr>
                               iaq_amounts_in =
                                 [asset_id (asset_1 p') \<mapsto> amount_1,
                                  asset_id (asset_2 p') \<mapsto> amount_2],
                               iaq_pool_token_asset_amount =
                                 \<lparr> asset = pool_token_asset s,
                                   amount = pool_token_asset_amount \<rparr> \<rparr>, p')))))"

text \<open>
  The two remove operations test \<^verbatim>\<open>self.exists\<close> and build the AssetAmount of an integer
  argument from the snapshot as it is before the refresh; the formula is called on the
  refreshed snapshot. A refresh never unsets a snapshot, so the branch for a missing one
  after the refresh is never taken; it stands for the TypeError of arithmetic on None.
\<close>

datatype amount_ref = AmountObj asset_amount | AmountInt int

definition fetch_remove_liquidity_quote ::
  "env \<Rightarrow> pool \<Rightarrow> amount_ref \<Rightarrow> rat \<Rightarrow> (error + remove_liquidity_quote) \<times> pool" where
  "fetch_remove_liquidity_quote E p pool_token_asset_in slippage =
     (case snapshot p of
        None \<Rightarrow> (Inl BootstrapIsRequired, p)
      | Some s0 \<Rightarrow>
          if \<not> exists s0 then (Inl BootstrapIsRequired, p)
          else
            (let pool_token_asset_in =
                   (case pool_token_asset_in of
                      AmountInt n \<Rightarrow> \<lparr> asset = pool_token_asset s0, amount = n \<rparr>
                    | AmountObj a \<Rightarrow> a)
             in case refresh E p None of
                  Inl e \<Rightarrow> (Inl e, p)
                | Inr p' \<Rightarrow>
                    (case snapshot p' of
                       None \<Rightarrow> (Inl TypeError, p')
                     | Some s \<Rightarrow>
                         (case calculate_remove_liquidity_output_amounts E
                                 (amount pool_token_asset_in) (asset_1_reserves s)
                                 (asset_2_reserves s) (issued_pool_tokens s) of
                            Inl x \<Rightarrow> (Inl (Raised x), p')
                          | Inr (asset_1_output_amount, asset_2_output_amount) \<Rightarrow>
                              (Inr \<lparr>
                                 rlq_amounts_out =
                                   [asset_id (asset_1 p') \<mapsto>
                                      \<lparr> asset = asset_1 p', amount = asset_1_output_amount \<rparr>,
                                    asset_id (asset_2 p') \<mapsto>
                                      \<lparr> asset = asset_2 p', amount = asset_2_output_amount \<rparr>],
                                 rlq_pool_token_asset_amount = pool_token_asset_in,
                                 rlq_slippage = slippage \<rparr>, p')))))"

definition fetch_single_asset_remove_liquidity_quote ::
  "env \<Rightarrow> pool \<Rightarrow> amount_ref \<Rightarrow> asset \<Rightarrow> rat
    \<Rightarrow> (error + single_asset_remove_liquidity_quote) \<times> pool" where
  "fetch_single_asset_remove_liquidity_quote E p pool_token_asset_in output_asset slippage =
     (case snapshot p of
        None \<Rightarrow> (Inl BootstrapIsRequired, p)
      | Some s0 \<Rightarrow>
          if \<not> exists s0 then (Inl BootstrapIsRequired, p)
          else
            (let pool_token_asset_in =
                   (case pool_token_asset_in of
                      AmountInt n \<Rightarrow> \<lparr> asset = pool_token_asset s0, amount = n \<rparr>
                    | AmountObj a \<Rightarrow> a)
             in case refresh E p None of
                  Inl e \<Rightarrow> (Inl e, p)
                | Inr p' \<Rightarrow>
                    (case snapshot p' of
                       None \<Rightarrow> (Inl TypeError, p')
                     | Some s \<Rightarrow>
                         (case calculate_remove_liquidity_output_amounts E
                                 (amount pool_token_asset_in) (asset_1_reserves s)
                                 (asset_2_reserves s) (issued_pool_tokens s) of
                            Inl x \<Rightarrow> (Inl (Raised x), p')
                          | Inr (asset_1_output_amount, asset_2_output_amount) \<Rightarrow>
                              if asset_eq output_asset (asset_1 p') then
                                (case calculate_fixed_input_swap E
                                        (asset_2_reserves s - asset_2_output_amount)
                                        (asset_1_reserves s - asset_1_output_amount)
                                        asset_2_output_amount (total_fee_share s) of
                                   Inl x \<Rightarrow> (Inl (Raised x), p')
                                 | Inr (swap_output_amount, total_fee_amount, price_impact) \<Rightarrow>
                                     (Inr \<lparr>
                                        sarq_amount_out =
                                          \<lparr> asset = asset_1 p',
                                            amount = asset_1_output_amount + swap_output_amount \<rparr>,
                                        sarq_pool_token_asset_amount = pool_token_asset_in,
                                        sarq_slippage = slippage,
                                        sarq_internal_swap_quote = \<lparr>
                                          isq_amount_in =
                                            \<lparr> asset = asset_2 p', amount = asset_2_output_amount \<rparr>,
                                          isq_amount_out =
                                            \<lparr> asset = asset_1 p', amount = swap_output_amount \<rparr>,
                                          isq_swap_fees =
                                            \<lparr> asset = asset_2 p', amount = total_fee_amount \<rparr>,
                                          isq_price_impact = price_impact \<rparr> \<rparr>, p'))
                              else if asset_eq output_asset (asset_2 p') then
                                (case calculate_fixed_input_swap E
                                        (asset_1_reserves s - asset_1_output_amount)
                                        (asset_2_reserves s - asset_2_output_amount)
                                        asset_1_output_amount (total_fee_share s) of
                                   Inl x \<Rightarrow> (Inl (Raised x), p')
                                 | Inr (swap_output_amount, total_fee_amount, price_impact) \<Rightarrow>
                                     (Inr \<lparr>
                                        sarq_amount_out =
                                          \<lparr> asset = asset_2 p',
                                            amount = asset_2_output_amount + swap_output_amount \<rparr>,
                                        sarq_pool_token_asset_amount = pool_token_asset_in,
                                        sarq_slippage = slippage,
                                        sarq_internal_swap_quote = \<lparr>
                                          isq_amount_in =
                                            \<lparr> asset = asset_1 p', amount = asset_1_output_amount \<rparr>,
                                          isq_amount_out =
                                            \<lparr> asset = asset_2 p', amount = swap_output_amount \<rparr>,
                                          isq_swap_fees =
                                            \<lparr> asset = asset_1 p', amount = total_fee_amount \<rparr>,
                                          isq_price_impact = price_impact \<rparr> \<rparr>, p'))
                              else (Inl (AssertionError []), p')))))"

text \<open>
  In \<^verbatim>\<open>fetch_fixed_input_swap_quote\<close> the second branch tests \<^verbatim>\<open>self.asset_1\<close> again, as the
  source does, and the last branch is \<^verbatim>\<open>raise False\<close>: a TypeError, since False is not an
  exception.
\<close>

definition fetch_fixed_input_swap_quote ::
  "env \<Rightarrow> pool \<Rightarrow> asset_amount \<Rightarrow> rat \<Rightarrow> (error + swap_quote) \<times> pool" where
  "fetch_fixed_input_swap_quote E p amount_in slippage =
     (case refresh E p None of
        Inl e \<Rightarrow> (Inl e, p)
      | Inr p' \<Rightarrow>
          (case snapshot p' of
             None \<Rightarrow> (Inl BootstrapIsRequired, p')
           | Some s \<Rightarrow>
               if \<not> exists s then (Inl BootstrapIsRequired, p')
               else if issued_pool_tokens s = 0 then (Inl PoolHasNoLiquidity, p')
               else
                 (let chosen =
                        (if asset_eq (asset amount_in) (asset_1 p')
                         then Inr (asset_2 p', asset_1_reserves s, asset_2_reserves s)
                         else if asset_eq (asset amount_in) (asset_1 p')
                         then Inr (asset_1 p', asset_2_reserves s, asset_1_reserves s)
                         else Inl TypeError)
                  in case chosen of
                       Inl e \<Rightarrow> (Inl e, p')
                     | Inr (asset_out, input_supply, output_supply) \<Rightarrow>
                         (case calculate_fixed_input_swap E input_supply output_supply
                                 (amount amount_in) (total_fee_share s) of
                            Inl x \<Rightarrow> (Inl (Raised x), p')
                          | Inr (swap_output_amount, total_fee_amount, price_impact) \<Rightarrow>
                              (Inr \<lparr>
                                 sq_swap_type = ''fixed-input'',
                                 sq_amount_in = amount_in,
                                 sq_amount_out =
                                   \<lparr> asset = asset_out, amount = swap_output_amount \<rparr>,
                                 sq_swap_fees =
                                   \<lparr> asset = asset amount_in, amount = total_fee_amount \<rparr>,
                                 sq_slippage = slippage,
                                 sq_price_impact = price_impact \<rparr>, p')))))"

definition fetch_fixed_output_swap_quote ::
  "env \<Rightarrow> pool \<Rightarrow> asset_amount \<Rightarrow> rat \<Rightarrow> (error + swap_quote) \<times> pool" where
  "fetch_fixed_output_swap_quote E p amount_out slippage =
     (case refresh E p None of
        Inl e \<Rightarrow> (Inl e, p)
      | Inr p' \<Rightarrow>
          (case snapshot p' of
             None \<Rightarrow> (Inl BootstrapIsRequired, p')
           | Some s \<Rightarrow>
               if \<not> exists s then (Inl BootstrapIsRequired, p')
               else if issued_pool_tokens s = 0 then (Inl PoolHasNoLiquidity, p')
               else
                 (let chosen =
                        (if asset_eq (asset amount_out) (asset_1 p')
                         then Inr (asset_2 p', asset_2_reserves s, asset_1_reserves s)
                         else if asset_eq (asset amount_out) (asset_2 p')
                         then Inr (asset_1 p', asset_1_reserves s, asset_2_reserves s)
                         else Inl (AssertionError []))
                  in case chosen of
                       Inl e \<Rightarrow> (Inl e, p')
                     | Inr (asset_in, input_supply, output_supply) \<Rightarrow>
                         (case calculate_fixed_output_swap E input_supply output_supply
                                 (amount amount_out) (total_fee_share s) of
                            Inl x \<Rightarrow> (Inl (Raised x), p')
                          | Inr (swap_input_amount, total_fee_amount, price_impact) \<Rightarrow>
                              (Inr \<lparr>
                                 sq_swap_type = ''fixed-output'',
                                 sq_amount_in =
                                   \<lparr> asset = asset_in, amount = swap_input_amount \<rparr>,
                                 sq_amount_out = amount_out,
                                 sq_swap_fees =
                                   \<lparr> asset = asset_in, amount = total_fee_amount \<rparr>,
                                 sq_slippage = slippage,
                                 sq_price_impact = price_impact \<rparr>, p')))))"

section \<open>Slippage bounds and the swap transactions\<close>

text \<open>
  Modelled from the spec: \<^verbatim>\<open>quotes.py\<close>, which holds the quotes' properties
  \<^verbatim>\<open>amount_in_with_slippage\<close> and \<^verbatim>\<open>amount_out_with_slippage\<close>, is not among the sources. The
  spec's bound rule: an amount the participant pays is bounded above by
  \<open>ceil(raw * (1+s))\<close>, an amount the participant receives is bounded below by
  \<open>floor(raw * (1-s))\<close>, for the slippage tolerance \<open>s\<close>. The bound check of an external
  execution accepts a received amount that is not below the lower bound.
\<close>

definition pay_bound :: "int \<Rightarrow> rat \<Rightarrow> int" where
  "pay_bound raw s = \<lceil>of_int raw * (1 + s)\<rceil>"

definition receive_bound :: "int \<Rightarrow> rat \<Rightarrow> int" where
  "receive_bound raw s = \<lfloor>of_int raw * (1 - s)\<rfloor>"

definition bound_check_accepts :: "int \<Rightarrow> int \<Rightarrow> bool" where
  "bound_check_accepts lower_bound received = (lower_bound \<le> received)"

definition amount_in_with_slippage :: "swap_quote \<Rightarrow> asset_amount" where
  "amount_in_with_slippage q =
     \<lparr> asset = asset (sq_amount_in q),
       amount = pay_bound (amount (sq_amount_in q)) (sq_slippage q) \<rparr>"

definition amount_out_with_slippage :: "swap_quote \<Rightarrow> asset_amount" where
  "amount_out_with_slippage q =
     \<lparr> asset = asset (sq_amount_out q),
       amount = receive_bound (amount (sq_amount_out q)) (sq_slippage q) \<rparr>"

text \<open>
  \<^verbatim>\<open>prepare_swap_transactions\<close> hands its arguments to the function of the same name of the
  module \<^verbatim>\<open>swap\<close>, which is not among the sources: the result here is the keyword
  arguments of that call (the suggested parameters, read from the ledger, apart).
  \<^verbatim>\<open>swapper_address or self.client.user_address\<close> takes the client's address for None and
  for the empty string: \<open>address_or_user\<close>.
\<close>

definition address_or_user :: "env \<Rightarrow> string option \<Rightarrow> string" where
  "address_or_user E address =
     (case address of
        None \<Rightarrow> client_user_address E
      | Some a \<Rightarrow> if a = [] then client_user_address E else a)"

record swap_transactions_call =
  stc_validator_app_id :: int
  stc_asset_1_id :: int
  stc_asset_2_id :: int
  stc_asset_in_id :: int
  stc_asset_in_amount :: int
  stc_asset_out_amount :: int
  stc_swap_type :: string
  stc_sender :: string

definition prepare_swap_transactions ::
  "env \<Rightarrow> pool \<Rightarrow> asset_amount \<Rightarrow> asset_amount \<Rightarrow> string \<Rightarrow> string option
    \<Rightarrow> swap_transactions_call" where
  "prepare_swap_transactions E p amount_in amount_out swap_type swapper_address =
     \<lparr> stc_validator_app_id = validator_app_id p,
       stc_asset_1_id = asset_id (asset_1 p),
       stc_asset_2_id = asset_id (asset_2 p),
       stc_asset_in_id = asset_id (asset amount_in),
       stc_asset_in_amount = amount amount_in,
       stc_asset_out_amount = amount amount_out,
       stc_swap_type = swap_type,
       stc_sender = address_or_user E swapper_address \<rparr>"

definition prepare_swap_transactions_from_quote ::
  "env \<Rightarrow> pool \<Rightarrow> swap_quote \<Rightarrow> string option \<Rightarrow> swap_transactions_call" where
  "prepare_swap_transactions_from_quote E p quote swapper_address =
     prepare_swap_transactions E p (amount_in_with_slippage quote)
       (amount_out_with_slippage quote) (sq_swap_type quote) swapper_address"

section \<open>The add and remove liquidity transactions\<close>

text \<open>
  Modelled from the spec: the properties \<^verbatim>\<open>min_pool_token_asset_amount_with_slippage\<close>,
  \<^verbatim>\<open>amounts_out_with_slippage\<close> and \<^verbatim>\<open>amount_out_with_slippage\<close> of the add and remove quotes
  are in \<^verbatim>\<open>quotes.py\<close>, which is not among the sources. Each is an amount the participant
  receives, so each is the lower bound of the spec's rule.
\<close>

definition faq_min_pool_token_asset_amount_with_slippage :: "flexible_add_liquidity_quote \<Rightarrow> int" where
  "faq_min_pool_token_asset_amount_with_slippage q =
     receive_bound (amount (faq_pool_token_asset_amount q)) (faq_slippage q)"

definition saq_min_pool_token_asset_amount_with_slippage ::
  "single_asset_add_liquidity_quote \<Rightarrow> int" where
  "saq_min_pool_token_asset_amount_with_slippage q =
     receive_bound (amount (saq_pool_token_asset_amount q)) (saq_slippage q)"

definition rlq_amounts_out_with_slippage :: "remove_liquidity_quote \<Rightarrow> (int \<rightharpoonup> asset_amount)" where
  "rlq_amounts_out_with_slippage q =
     (\<lambda>k. map_option
            (\<lambda>a. \<lparr> asset = asset a, amount = receive_bound (amount a) (rlq_slippage q) \<rparr>)
            (rlq_amounts_out q k))"

definition sarq_amount_out_with_slippage :: "single_asset_remove_liquidity_quote \<Rightarrow> asset_amount" where
  "sarq_amount_out_with_slippage q =
     \<lparr> asset = asset (sarq_amount_out q),
       amount = receive_bound (amount (sarq_amount_out q)) (sarq_slippage q) \<rparr>"

text \<open>
  The \<^verbatim>\<open>prepare_*\<close> methods hand their arguments to the functions of the modules
  \<^verbatim>\<open>add_liquidity\<close> and \<^verbatim>\<open>remove_liquidity\<close>, which are not among the sources: the result
  is the keyword arguments of that call (the suggested parameters apart). A subscript
  with an asset that is not a key raises KeyError; \<^verbatim>\<open>self.pool_token_asset.id\<close> raises
  AttributeError while the pool token asset is None. The subscripts are evaluated before
  the call's arguments.
\<close>

record flexible_add_liquidity_call =
  flc_validator_app_id :: int
  flc_asset_1_id :: int
  flc_asset_2_id :: int
  flc_pool_token_asset_id :: int
  flc_asset_1_amount :: int
  flc_asset_2_amount :: int
  flc_min_pool_token_asset_amount :: int
  flc_sender :: string

record single_asset_add_liquidity_call =
  sac_validator_app_id :: int
  sac_asset_1_id :: int
  sac_asset_2_id :: int
  sac_pool_token_asset_id :: int
  sac_asset_1_amount :: "int option"
  sac_asset_2_amount :: "int option"
  sac_min_pool_token_asset_amount :: "int option"
  sac_sender :: string

record initial_add_liquidity_call =
  ilc_validator_app_id :: int
  ilc_asset_1_id :: int
  ilc_asset_2_id :: int
  ilc_pool_token_asset_id :: int
  ilc_asset_1_amount :: int
  ilc_asset_2_amount :: int
  ilc_sender :: string

record remove_liquidity_call =
  rmc_validator_app_id :: int
  rmc_asset_1_id :: int
  rmc_asset_2_id :: int
  rmc_pool_token_asset_id :: int
  rmc_min_asset_1_amount :: int
  rmc_min_asset_2_amount :: int
  rmc_pool_token_asset_amount :: int
  rmc_sender :: string

record single_asset_remove_liquidity_call =
  src_validator_app_id :: int
  src_asset_1_id :: int
  src_asset_2_id :: int
  src_pool_token_asset_id :: int
  src_output_asset_id :: int
  src_min_output_asset_amount :: int
  src_pool_token_asset_amount :: int
  src_sender :: string

definition prepare_flexible_add_liquidity_transactions ::
  "env \<Rightarrow> pool \<Rightarrow> (int \<rightharpoonup> asset_amount) \<Rightarrow> int \<Rightarrow> string option
    \<Rightarrow> error + flexible_add_liquidity_call" where
  "prepare_flexible_add_liquidity_transactions E p amounts_in min_pool_token_asset_amount
       pooler_address =
     (case amounts_in (asset_id (asset_1 p)) of
        None \<Rightarrow> Inl KeyError
      | Some asset_1_amount \<Rightarrow>
          (case amounts_in (asset_id (asset_2 p)) of
             None \<Rightarrow> Inl KeyError
           | Some asset_2_amount \<Rightarrow>
               (case snapshot p of
                  None \<Rightarrow> Inl AttributeError
                | Some s \<Rightarrow>
                    Inr \<lparr> flc_validator_app_id = validator_app_id p,
                          flc_asset_1_id = asset_id (asset_1 p),
                          flc_asset_2_id = asset_id (asset_2 p),
                          flc_pool_token_asset_id = asset_id (pool_token_asset s),
                          flc_asset_1_amount = amount asset_1_amount,
                          flc_asset_2_amount = amount asset_2_amount,
                          flc_min_pool_token_asset_amount = min_pool_token_asset_amount,
                          flc_sender = address_or_user E pooler_address \<rparr>)))"

definition prepare_single_asset_add_liquidity_transactions ::
  "env \<Rightarrow> pool \<Rightarrow> asset_amount \<Rightarrow> int option \<Rightarrow> string option
    \<Rightarrow> error + single_asset_add_liquidity_call" where
  "prepare_single_asset_add_liquidity_transactions E p amount_in min_pool_token_asset_amount
       pooler_address =
     (case snapshot p of
        None \<Rightarrow> Inl AttributeError
      | Some s \<Rightarrow>
          Inr \<lparr> sac_validator_app_id = validator_app_id p,
                sac_asset_1_id = asset_id (asset_1 p),
                sac_asset_2_id = asset_id (asset_2 p),
                sac_pool_token_asset_id = asset_id (pool_token_asset s),
                sac_asset_1_amount =
                  (if asset_eq (asset amount_in) (asset_1 p) then Some (amount amount_in)
                   else None),
                sac_asset_2_amount =
                  (if asset_eq (asset amount_in) (asset_2 p) then Some (amount amount_in)
                   else None),
                sac_min_pool_token_asset_amount = min_pool_token_asset_amount,
                sac_sender = address_or_user E pooler_address \<rparr>)"

definition prepare_initial_add_liquidity_transactions ::
  "env \<Rightarrow> pool \<Rightarrow> (int \<rightharpoonup> asset_amount) \<Rightarrow> string option
    \<Rightarrow> error + initial_add_liquidity_call" where
  "prepare_initial_add_liquidity_transactions E p amounts_in pooler_address =
     (case amounts_in (asset_id (asset_1 p)) of
        None \<Rightarrow> Inl KeyError
      | Some asset_1_amount \<Rightarrow>
          (case amounts_in (asset_id (asset_2 p)) of
             None \<Rightarrow> Inl KeyError
           | Some asset_2_amount \<Rightarrow>
               (case snapshot p of
                  None \<Rightarrow> Inl AttributeError
                | Some s \<Rightarrow>
                    Inr \<lparr> ilc_validator_app_id = validator_app_id p,
                          ilc_asset_1_id = asset_id (asset_1 p),
                          ilc_asset_2_id = asset_id (asset_2 p),
                          ilc_pool_token_asset_id = asset_id (pool_token_asset s),
                          ilc_asset_1_amount = amount asset_1_amount,
                          ilc_asset_2_amount = amount asset_2_amount,
                          ilc_sender = address_or_user E pooler_address \<rparr>)))"

text \<open>
  The quote argument of \<^verbatim>\<open>prepare_add_liquidity_transactions_from_quote\<close> is one of the
  three add quotes, told apart by \<^verbatim>\<open>isinstance\<close>; the final \<^verbatim>\<open>raise\<close> is for an argument
  of another type, which this union does not hold.
\<close>

datatype add_liquidity_quote =
    FlexibleAddLiquidityQuote flexible_add_liquidity_quote
  | SingleAssetAddLiquidityQuote single_asset_add_liquidity_quote
  | InitialAddLiquidityQuote initial_add_liquidity_quote

datatype add_liquidity_call =
    FlexibleAddLiquidityCall flexible_add_liquidity_call
  | SingleAssetAddLiquidityCall single_asset_add_liquidity_call
  | InitialAddLiquidityCall initial_add_liquidity_call

definition prepare_add_liquidity_transactions_from_quote ::
  "env \<Rightarrow> pool \<Rightarrow> add_liquidity_quote \<Rightarrow> string option \<Rightarrow> error + add_liquidity_call" where
  "prepare_add_liquidity_transactions_from_quote E p quote pooler_address =
     (case quote of
        FlexibleAddLiquidityQuote q \<Rightarrow>
          map_sum id FlexibleAddLiquidityCall
            (prepare_flexible_add_liquidity_transactions E p (faq_amounts_in q)
               (faq_min_pool_token_asset_amount_with_slippage q) pooler_address)
      | SingleAssetAddLiquidityQuote q \<Rightarrow>
          map_sum id SingleAssetAddLiquidityCall
            (prepare_single_asset_add_liquidity_transactions E p (saq_amount_in q)
               (Some (saq_min_pool_token_asset_amount_with_slippage q)) pooler_address)
      | InitialAddLiquidityQuote q \<Rightarrow>
          map_sum id InitialAddLiquidityCall
            (prepare_initial_add_liquidity_transactions E p (iaq_amounts_in q) pooler_address))"

text \<open>
  The AssetAmount that the remove methods build from an integer argument is read only
  for its amount.
\<close>

definition prepare_remove_liquidity_transactions ::
  "env \<Rightarrow> pool \<Rightarrow> amount_ref \<Rightarrow> (int \<rightharpoonup> asset_amount) \<Rightarrow> string option
    \<Rightarrow> error + remove_liquidity_call" where
  "prepare_remove_liquidity_transactions E p pool_token_asset_amount amounts_out pooler_address =
     (case amounts_out (asset_id (asset_1 p)) of
        None \<Rightarrow> Inl KeyError
      | Some asset_1_amount \<Rightarrow>
          (case amounts_out (asset_id (asset_2 p)) of
             None \<Rightarrow> Inl KeyError
           | Some asset_2_amount \<Rightarrow>
               (case snapshot p of
                  None \<Rightarrow> Inl AttributeError
                | Some s \<Rightarrow>
                    Inr \<lparr> rmc_validator_app_id = validator_app_id p,
                          rmc_asset_1_id = asset_id (asset_1 p),
                          rmc_asset_2_id = asset_id (asset_2 p),
                          rmc_pool_token_asset_id = asset_id (pool_token_asset s),
                          rmc_min_asset_1_amount = amount asset_1_amount,
                          rmc_min_asset_2_amount = amount asset_2_amount,
                          rmc_pool_token_asset_amount =
                            (case pool_token_asset_amount of
                               AmountInt n \<Rightarrow> n
                             | AmountObj a \<Rightarrow> amount a),
                          rmc_sender = address_or_user E pooler_address \<rparr>)))"

definition prepare_single_asset_remove_liquidity_transactions ::
  "env \<Rightarrow> pool \<Rightarrow> amount_ref \<Rightarrow> asset_amount \<Rightarrow> string option
    \<Rightarrow> error + single_asset_remove_liquidity_call" where
  "prepare_single_asset_remove_liquidity_transactions E p pool_token_asset_amount amount_out
       pooler_address =
     (case snapshot p of
        None \<Rightarrow> Inl AttributeError
      | Some s \<Rightarrow>
          Inr \<lparr> src_validator_app_id = validator_app_id p,
                src_asset_1_id = asset_id (asset_1 p),
                src_asset_2_id = asset_id (asset_2 p),
                src_pool_token_asset_id = asset_id (pool_token_asset s),
                src_output_asset_id = asset_id (asset amount_out),
                src_min_output_asset_amount = amount amount_out,
                src_pool_token_asset_amount =
                  (case pool_token_asset_amount of
                     AmountInt n \<Rightarrow> n
                   | AmountObj a \<Rightarrow> amount a),
                src_sender = address_or_user E pooler_address \<rparr>)"

text \<open>
  \<^verbatim>\<open>prepare_remove_liquidity_transactions_from_quote\<close> resolves the address first, tests
  for the single-asset quote first, and builds the dictionary of the two bounded outputs
  by subscript; its final \<^verbatim>\<open>raise\<close> is for an argument of another type.
\<close>

datatype remove_quote =
    RemoveLiquidityQuote remove_liquidity_quote
  | SingleAssetRemoveLiquidityQuote single_asset_remove_liquidity_quote

datatype remove_call =
    RemoveLiquidityCall remove_liquidity_call
  | SingleAssetRemoveLiquidityCall single_asset_remove_liquidity_call

definition prepare_remove_liquidity_transactions_from_quote ::
  "env \<Rightarrow> pool \<Rightarrow> remove_quote \<Rightarrow> string option \<Rightarrow> error + remove_call" where
  "prepare_remove_liquidity_transactions_from_quote E p quote pooler_address =
     (let pooler_address = Some (address_or_user E pooler_address)
      in case quote of
           SingleAssetRemoveLiquidityQuote q \<Rightarrow>
             map_sum id SingleAssetRemoveLiquidityCall
               (prepare_single_asset_remove_liquidity_transactions E p
                  (AmountObj (sarq_pool_token_asset_amount q))
                  (sarq_amount_out_with_slippage q) pooler_address)
         | RemoveLiquidityQuote q \<Rightarrow>
             (case rlq_amounts_out_with_slippage q (asset_id (asset_1 p)) of
                None \<Rightarrow> Inl KeyError
              | Some out_1 \<Rightarrow>
                  (case rlq_amounts_out_with_slippage q (asset_id (asset_2 p)) of
                     None \<Rightarrow> Inl KeyError
                   | Some out_2 \<Rightarrow>
                       map_sum id RemoveLiquidityCall
                         (prepare_remove_liquidity_transactions E p
                            (AmountObj (rlq_pool_token_asset_amount q))
                            [asset_id (asset_1 p) \<mapsto> out_1, asset_id (asset_2 p) \<mapsto> out_2]
                            pooler_address))))"

section \<open>The single-asset remove, in the spec's words\<close>

text \<open>
  The spec: compute the proportional payout, then apply the fixed-input swap formula to
  convert the unwanted asset's payout into the desired asset, using reserves already
  reduced by the proportional amounts as the swap's working supply. The amount out is the
  desired asset's payout plus the swap's output. This definition follows these words; the
  one from the source is \<open>fetch_single_asset_remove_liquidity_quote\<close>.
\<close>

definition single_asset_remove_spec :: "env \<Rightarrow> snapshot \<Rightarrow> int \<Rightarrow> bool \<Rightarrow> lib_exception + int" where
  "single_asset_remove_spec E s burn_amount wants_asset_1 =
     (case calculate_remove_liquidity_output_amounts E burn_amount
             (asset_1_reserves s) (asset_2_reserves s) (issued_pool_tokens s) of
        Inl x \<Rightarrow> Inl x
      | Inr (out_1, out_2) \<Rightarrow>
          (let desired_payout = (if wants_asset_1 then out_1 else out_2);
               unwanted_payout = (if wants_asset_1 then out_2 else out_1);
               desired_supply = (if wants_asset_1 then asset_1_reserves s - out_1
                                 else asset_2_reserves s - out_2);
               unwanted_supply = (if wants_asset_1 then asset_2_reserves s - out_2
                                  else asset_1_reserves s - out_1)
           in case calculate_fixed_input_swap E unwanted_supply desired_supply
                     unwanted_payout (total_fee_share s) of
                Inl x \<Rightarrow> Inl x
              | Inr (swap_output, fee, impact) \<Rightarrow> Inr (desired_payout + swap_output)))"

section \<open>The other side of a single-asset deposit\<close>

text \<open>
  The spec: a single-asset deposit is the flexible add in which the other side's amount
  is zero. \<open>zero_of_other_asset\<close> is that other side: the amount 0 of the pool asset that
  the deposit is not in.
\<close>

definition zero_of_other_asset :: "pool \<Rightarrow> asset_amount \<Rightarrow> asset_amount" where
  "zero_of_other_asset p amount_a =
     \<lparr> asset = (if asset_eq (asset amount_a) (asset_1 p) then asset_2 p else asset_1 p),
       amount = 0 \<rparr>"

section \<open>Sequences of operations\<close>

text \<open>
  The calls that write to the pool: \<^verbatim>\<open>refresh\<close>, \<^verbatim>\<open>update_from_info\<close> and the seven
  quote operations, which write through their refresh. \<open>apply_operation\<close> is the pool
  after one call, whether the call returned or raised; each call comes with the \<open>env\<close> it
  runs in, since the ledger changes between calls.
\<close>

datatype operation =
    Refresh "pool_info option"
  | UpdateFromInfo pool_info
  | FlexibleAddQuote asset_amount asset_amount rat
  | SingleAssetAddQuote asset_amount rat
  | InitialAddQuote asset_amount asset_amount
  | RemoveQuote amount_ref rat
  | SingleAssetRemoveQuote amount_ref asset rat
  | FixedInputSwapQuote asset_amount rat
  | FixedOutputSwapQuote asset_amount rat

fun apply_operation :: "pool \<Rightarrow> env \<times> operation \<Rightarrow> pool" where
  "apply_operation p (E, Refresh info) = (case refresh E p info of Inl e \<Rightarrow> p | Inr p' \<Rightarrow> p')"
| "apply_operation p (E, UpdateFromInfo info) = update_from_info E p info"
| "apply_operation p (E, FlexibleAddQuote a b s) = snd (fetch_flexible_add_liquidity_quote E p a b s)"
| "apply_operation p (E, SingleAssetAddQuote a s) = snd (fetch_single_asset_add_liquidity_quote E p a s)"
| "apply_operation p (E, InitialAddQuote a b) = snd (fetch_initial_add_liquidity_quote E p a b)"
| "apply_operation p (E, RemoveQuote n s) = snd (fetch_remove_liquidity_quote E p n s)"
| "apply_operation p (E, SingleAssetRemoveQuote n a s) =
     snd (fetch_single_asset_remove_liquidity_quote E p n a s)"
| "apply_operation p (E, FixedInputSwapQuote a s) = snd (fetch_fixed_input_swap_quote E p a s)"
| "apply_operation p (E, FixedOutputSwapQuote a s) = snd (fetch_fixed_output_swap_quote E p a s)"

definition same_assets :: "pool \<Rightarrow> pool \<Rightarrow> bool" where
  "same_assets p q = (asset_1 q = asset_1 p \<and> asset_2 q = asset_2 p)"

text \<open>Every quote operation leaves the pool as it was or as the refresh made it.\<close>

definition unchanged_or_refreshed :: "env \<Rightarrow> pool \<Rightarrow> pool \<Rightarrow> bool" where
  "unchanged_or_refreshed E p q = (q = p \<or> refresh E p None = Inr q)"

section \<open>Concrete inputs\<close>

text \<open>
  A ledger, a client and a formula library on which the operations are evaluated. The
  ledger holds the pool of the spec's scenario: reserves of 1,000,000 and 2,000,000 and a
  total fee share of 3. The state keys are looked up as they are written. The theorems
  below hold for every \<open>env\<close>; these values only instantiate them.

  Modelled from the spec: \<^verbatim>\<open>formulas.py\<close> is not among the sources. \<open>test_remove\<close> is the
  spec's proportional remove, \<open>out_i = floor(reserves_i * burn_amount / issued_tokens)\<close>,
  and \<open>test_fixed_input_swap\<close> is the spec's fixed-input swap: the fee, in parts per
  thousand, is deducted from the input first, then
  \<open>output = floor(output_supply * input_after_fee / (input_supply + input_after_fee))\<close>,
  and the price impact is the fractional deviation of \<open>output / input\<close> from
  \<open>output_supply / input_supply\<close>. A division by zero raises. The spec does not fix the
  arithmetic of the other three formulas; the library below fills them with stand-ins.
\<close>

definition test_asset_1 :: asset where
  "test_asset_1 = \<lparr> asset_id = 20, unit_name = ''USDC'', decimals = 6 \<rparr>"
definition test_asset_2 :: asset where
  "test_asset_2 = \<lparr> asset_id = 0, unit_name = ''ALGO'', decimals = 6 \<rparr>"

definition uint_value :: "int \<Rightarrow> teal_value" where
  "uint_value n = \<lparr> tv_type = 2, tv_bytes = [], tv_uint = n \<rparr>"

definition test_account :: "string \<Rightarrow> int \<Rightarrow> account_info" where
  "test_account address issued =
     \<lparr> ai_address = address, ai_amount = 500000, ai_round = 100,
       apps_local_state = [\<lparr> app_id = 1, key_value =
         [(''asset_1_id'', uint_value 20), (''asset_2_id'', uint_value 0),
          (''pool_token_asset_id'', uint_value 77),
          (''issued_pool_tokens'', uint_value issued),
          (''asset_1_reserves'', uint_value 1000000),
          (''asset_2_reserves'', uint_value 2000000),
          (''total_fee_share'', uint_value 3),
          (''protocol_fee_ratio'', uint_value 6)] \<rparr>] \<rparr>"

definition empty_account :: account_info where
  "empty_account = \<lparr> ai_address = ''POOL'', ai_amount = 0, ai_round = 100, apps_local_state = [] \<rparr>"

definition test_remove :: "int \<Rightarrow> int \<Rightarrow> int \<Rightarrow> int \<Rightarrow> lib_exception + (int \<times> int)" where
  "test_remove burn_amount reserves_1 reserves_2 issued_tokens =
     (if issued_tokens = 0 then Inl ZeroDivisionError
      else Inr (reserves_1 * burn_amount div issued_tokens,
                reserves_2 * burn_amount div issued_tokens))"

definition test_fixed_input_swap :: "int \<Rightarrow> int \<Rightarrow> int \<Rightarrow> int \<Rightarrow> lib_exception + (int \<times> int \<times> rat)" where
  "test_fixed_input_swap input_supply output_supply input_amount fee_share =
     (let fee = input_amount * fee_share div 1000;
          input_after_fee = input_amount - fee
      in if input_supply + input_after_fee = 0 \<or> input_amount = 0 \<or> input_supply = 0
            \<or> output_supply = 0
         then Inl ZeroDivisionError
         else (let output = output_supply * input_after_fee div (input_supply + input_after_fee)
               in Inr (output, fee,
                       1 - (of_int output / of_int input_amount)
                           / (of_int output_supply / of_int input_supply))))"

definition test_env :: "account_info \<Rightarrow> env" where
  "test_env account =
     \<lparr> client_validator_app_id = 1,
       client_user_address = ''USER'',
       fetch_asset = (\<lambda>i. \<lparr> asset_id = (case i of None \<Rightarrow> 0 | Some n \<Rightarrow> n),
                              unit_name = [], decimals = 0 \<rparr>),
       algod_account_info = (\<lambda>address. account),
       get_pool_logicsig_address = (\<lambda>app a1 a2. ''POOL''),
       get_state_int = (\<lambda>state k. case state k of None \<Rightarrow> 0 | Some v \<Rightarrow> tv_uint v),
       get_state_bytes = (\<lambda>state k. case state k of None \<Rightarrow> [] | Some v \<Rightarrow> tv_bytes v),
       bytes_to_int = (\<lambda>b. 0),
       calculate_subsequent_add_liquidity =
         (\<lambda>r1 r2 issued fee a1 a2. Inr (a1 + a2, a2 = 0, a1 + a2, 0, 0, 0)),
       calculate_initial_add_liquidity = (\<lambda>a1 a2. Inr (a1 + a2)),
       calculate_fixed_input_swap = test_fixed_input_swap,
       calculate_remove_liquidity_output_amounts = test_remove,
       calculate_fixed_output_swap = (\<lambda>i_s o_s a f. Inl ZeroDivisionError) \<rparr>"

definition test_pool :: "snapshot option \<Rightarrow> pool" where
  "test_pool s = \<lparr> validator_app_id = 1, asset_1 = test_asset_1, asset_2 = test_asset_2, snapshot = s \<rparr>"


definition test_snapshot :: snapshot where
  "test_snapshot =
     \<lparr> exists = True,
       pool_token_asset = \<lparr> asset_id = 77, unit_name = ''TMPOOL2'', decimals = 6 \<rparr>,
       asset_1_reserves = 1000000, asset_2_reserves = 2000000, issued_pool_tokens = 1000,
       asset_1_protocol_fees = 0, asset_2_protocol_fees = 0, total_fee_share = 3,
       protocol_fee_ratio = 6, last_refreshed_round = 99, algo_balance = 500000 \<rparr>"

text \<open>The snapshot that a refresh from the test ledger leaves, by issued pool tokens.\<close>

definition test_refreshed :: "int \<Rightarrow> snapshot" where
  "test_refreshed n =
     \<lparr> exists = True,
       pool_token_asset = \<lparr> asset_id = 77, unit_name = [], decimals = 0 \<rparr>,
       asset_1_reserves = 1000000, asset_2_reserves = 2000000, issued_pool_tokens = n,
       asset_1_protocol_fees = 0, asset_2_protocol_fees = 0, total_fee_share = 3,
       protocol_fee_ratio = 6, last_refreshed_round = 100, algo_balance = 500000 \<rparr>"

text \<open>
  One quote of each kind, with a slippage tolerance of 0.05 where the quote has one.
\<close>

definition test_pool_token :: asset where
  "test_pool_token = \<lparr> asset_id = 77, unit_name = [], decimals = 0 \<rparr>"

definition test_internal_swap_quote :: internal_swap_quote where
  "test_internal_swap_quote =
     \<lparr> isq_amount_in = \<lparr> asset = test_asset_1, amount = 0 \<rparr>,
       isq_amount_out = \<lparr> asset = test_asset_2, amount = 0 \<rparr>,
       isq_swap_fees = \<lparr> asset = test_asset_1, amount = 0 \<rparr>,
       isq_price_impact = 0 \<rparr>"

definition test_flexible_quote :: flexible_add_liquidity_quote where
  "test_flexible_quote =
     \<lparr> faq_amounts_in = [20 \<mapsto> \<lparr> asset = test_asset_1, amount = 1000 \<rparr>,
                         0 \<mapsto> \<lparr> asset = test_asset_2, amount = 2000 \<rparr>],
       faq_pool_token_asset_amount = \<lparr> asset = test_pool_token, amount = 1000 \<rparr>,
       faq_slippage = 1 / 20,
       faq_internal_swap_quote = test_internal_swap_quote \<rparr>"

definition test_single_add_quote :: single_asset_add_liquidity_quote where
  "test_single_add_quote =
     \<lparr> saq_amount_in = \<lparr> asset = test_asset_2, amount = 2000 \<rparr>,
       saq_pool_token_asset_amount = \<lparr> asset = test_pool_token, amount = 1000 \<rparr>,
       saq_slippage = 1 / 20,
       saq_internal_swap_quote = test_internal_swap_quote \<rparr>"

definition test_initial_quote :: initial_add_liquidity_quote where
  "test_initial_quote =
     \<lparr> iaq_amounts_in = [20 \<mapsto> \<lparr> asset = test_asset_1, amount = 1000 \<rparr>,
                         0 \<mapsto> \<lparr> asset = test_asset_2, amount = 2000 \<rparr>],
       iaq_pool_token_asset_amount = \<lparr> asset = test_pool_token, amount = 1414 \<rparr> \<rparr>"

definition test_remove_quote :: remove_liquidity_quote where
  "test_remove_quote =
     \<lparr> rlq_amounts_out = [20 \<mapsto> \<lparr> asset = test_asset_1, amount = 1000 \<rparr>,
                          0 \<mapsto> \<lparr> asset = test_asset_2, amount = 2000 \<rparr>],
       rlq_pool_token_asset_amount = \<lparr> asset = test_pool_token, amount = 10 \<rparr>,
       rlq_slippage = 1 / 20 \<rparr>"

definition test_single_remove_quote :: single_asset_remove_liquidity_quote where
  "test_single_remove_quote =
     \<lparr> sarq_amount_out = \<lparr> asset = test_asset_1, amount = 1000 \<rparr>,
       sarq_pool_token_asset_amount = \<lparr> asset = test_pool_token, amount = 10 \<rparr>,
       sarq_slippage = 1 / 20,
       sarq_internal_swap_quote = test_internal_swap_quote \<rparr>"

lemmas test_defs = test_env_def test_account_def empty_account_def uint_value_def test_pool_def
  test_asset_1_def test_asset_2_def test_remove_def test_fixed_input_swap_def test_snapshot_def

section \<open>The refresh\<close>

lemma refresh_keeps_identity:
  "refresh E p info = Inr p' \<Longrightarrow>
     asset_1 p' = asset_1 p \<and> asset_2 p' = asset_2 p \<and> validator_app_id p' = validator_app_id p"
  by (auto simp: refresh_def update_from_info_def split: option.splits sum.splits)

lemma refresh_keeps_snapshot_set:
  "refresh E p info = Inr p' \<Longrightarrow> snapshot p \<noteq> None \<Longrightarrow> snapshot p' \<noteq> None"
  by (auto simp: refresh_def update_from_info_def split: option.splits sum.splits)

lemma decode_raises_assertion:
  "get_pool_info_from_account_info E account = Inl e \<Longrightarrow> e = AssertionError []"
  by (simp add: get_pool_info_from_account_info_def Let_def split: list.splits if_splits)

lemma refresh_raises_assertion: "refresh E p info = Inl e \<Longrightarrow> e = AssertionError []"
  by (auto simp: refresh_def get_pool_info_def dest: decode_raises_assertion
      split: option.splits sum.splits)

text \<open>
  C10. When the snapshot source yields the empty result, \<^verbatim>\<open>refresh\<close> returns the pool as
  it was: the existence flag, the reserves, the issued pool tokens, the fee parameters,
  the last refreshed round and the pool token asset are all unchanged.
\<close>

theorem refresh_empty_unchanged:
  "get_pool_info E (validator_app_id p) (asset_id (asset_1 p)) (asset_id (asset_2 p)) = Inr None
     \<Longrightarrow> refresh E p None = Inr p"
  by (simp add: refresh_def)

theorem refresh_empty_unchanged_witness:
  "get_pool_info (test_env empty_account) 1 20 0 = Inr None
   \<and> refresh (test_env empty_account) (test_pool (Some test_snapshot)) None
       = Inr (test_pool (Some test_snapshot))"
proof -
  have src: "get_pool_info (test_env empty_account) 1 20 0 = Inr None"
    by (simp add: get_pool_info_def get_pool_info_from_account_info_def test_defs)
  have "get_pool_info (test_env empty_account)
          (validator_app_id (test_pool (Some test_snapshot)))
          (asset_id (asset_1 (test_pool (Some test_snapshot))))
          (asset_id (asset_2 (test_pool (Some test_snapshot)))) = Inr None"
    using src by (simp add: test_defs)
  from refresh_empty_unchanged [OF this] src show ?thesis by simp
qed

section \<open>Evaluating the operations on the test ledger\<close>

lemma test_source_live:
  "get_pool_info (test_env (test_account ''POOL'' n)) 1 20 0 =
     Inr (Some \<lparr> info_address = ''POOL'', info_asset_1_id = 20, info_asset_2_id = 0,
       info_pool_token_asset_id = Some 77, info_asset_1_reserves = 1000000,
       info_asset_2_reserves = 2000000, info_issued_pool_tokens = n,
       info_asset_1_protocol_fees = 0, info_asset_2_protocol_fees = 0,
       info_asset_1_cumulative_price = 0, info_asset_2_cumulative_price = 0,
       info_cumulative_price_update_timestamp = 0, info_total_fee_share = 3,
       info_protocol_fee_ratio = 6, info_validator_app_id = 1, info_algo_balance = 500000,
       info_round = 100 \<rparr>)"
  by (simp add: get_pool_info_def get_pool_info_from_account_info_def test_defs)

lemma test_refresh_live:
  "refresh (test_env (test_account ''POOL'' n)) (test_pool s) None
     = Inr (test_pool (Some (test_refreshed n)))"
proof -
  have "get_pool_info (test_env (test_account ''POOL'' n)) (validator_app_id (test_pool s))
          (asset_id (asset_1 (test_pool s))) (asset_id (asset_2 (test_pool s)))
        = get_pool_info (test_env (test_account ''POOL'' n)) 1 20 0"
    by (simp add: test_pool_def test_asset_1_def test_asset_2_def)
  then show ?thesis
    by (simp add: refresh_def test_source_live update_from_info_def test_refreshed_def)
       (simp add: test_pool_def test_env_def)
qed

lemma test_pool_sel:
  "snapshot (test_pool s) = s" "asset_1 (test_pool s) = test_asset_1"
  "asset_2 (test_pool s) = test_asset_2" "validator_app_id (test_pool s) = 1"
  by (simp_all add: test_pool_def)

lemma test_refreshed_sel:
  "exists (test_refreshed n)" "issued_pool_tokens (test_refreshed n) = n"
  "asset_1_reserves (test_refreshed n) = 1000000" "asset_2_reserves (test_refreshed n) = 2000000"
  "total_fee_share (test_refreshed n) = 3"
  "pool_token_asset (test_refreshed n) = \<lparr> asset_id = 77, unit_name = [], decimals = 0 \<rparr>"
  by (simp_all add: test_refreshed_def)

lemma test_env_formulas:
  "calculate_remove_liquidity_output_amounts (test_env a) = test_remove"
  "calculate_fixed_input_swap (test_env a) = test_fixed_input_swap"
  "calculate_subsequent_add_liquidity (test_env a) =
     (\<lambda>r1 r2 issued fee a1 a2. Inr (a1 + a2, a2 = 0, a1 + a2, 0, 0, 0))"
  by (simp_all add: test_env_def)

lemma test_asset_ids: "asset_id test_asset_1 = 20" "asset_id test_asset_2 = 0"
  by (simp_all add: test_asset_1_def test_asset_2_def)

lemma test_decode:
  "get_pool_info_from_account_info (test_env x) (test_account a n) =
     (if a = ''POOL'' then get_pool_info (test_env (test_account ''POOL'' n)) 1 20 0
      else Inl (AssertionError []))"
  by (simp add: get_pool_info_def get_pool_info_from_account_info_def test_defs)

section \<open>Decoding\<close>

text \<open>
  C9, as amended. An account information with no application local state decodes to the
  empty result. One with local state decodes to the full structure, each field the
  integer read from the first local state, when its address is the pool address derived
  from the decoded ids; when the address differs, the assertion fails and nothing is
  returned.
\<close>

theorem decode_pool_info:
  "(apps_local_state account = [] \<longrightarrow> get_pool_info_from_account_info E account = Inr None)
   \<and> (apps_local_state account = ls # rest
        \<and> ai_address account =
            get_pool_logicsig_address E (app_id ls)
              (get_state_int E (map_of (rev (key_value ls))) ''asset_1_id'')
              (get_state_int E (map_of (rev (key_value ls))) ''asset_2_id'')
      \<longrightarrow> (\<exists>info. get_pool_info_from_account_info E account = Inr (Some info)
            \<and> info_asset_1_id info = get_state_int E (map_of (rev (key_value ls))) ''asset_1_id''
            \<and> info_asset_2_id info = get_state_int E (map_of (rev (key_value ls))) ''asset_2_id''
            \<and> info_pool_token_asset_id info
                = Some (get_state_int E (map_of (rev (key_value ls))) ''pool_token_asset_id'')
            \<and> info_asset_1_reserves info
                = get_state_int E (map_of (rev (key_value ls))) ''asset_1_reserves''
            \<and> info_asset_2_reserves info
                = get_state_int E (map_of (rev (key_value ls))) ''asset_2_reserves''
            \<and> info_issued_pool_tokens info
                = get_state_int E (map_of (rev (key_value ls))) ''issued_pool_tokens''
            \<and> info_total_fee_share info
                = get_state_int E (map_of (rev (key_value ls))) ''total_fee_share''
            \<and> info_protocol_fee_ratio info
                = get_state_int E (map_of (rev (key_value ls))) ''protocol_fee_ratio''
            \<and> info_round info = ai_round account))
   \<and> (apps_local_state account = ls # rest
        \<and> ai_address account \<noteq>
            get_pool_logicsig_address E (app_id ls)
              (get_state_int E (map_of (rev (key_value ls))) ''asset_1_id'')
              (get_state_int E (map_of (rev (key_value ls))) ''asset_2_id'')
      \<longrightarrow> get_pool_info_from_account_info E account = Inl (AssertionError []))"
  by (simp add: get_pool_info_from_account_info_def Let_def)

text \<open>
  As C9 is written, every account information with local state decodes: an account with
  local state under another address raises instead.
\<close>

theorem decode_pool_info_counterexample:
  "apps_local_state (test_account ''USER'' 1000) \<noteq> []
   \<and> get_pool_info_from_account_info (test_env empty_account) (test_account ''USER'' 1000)
       = Inl (AssertionError [])"
  by (simp add: test_decode) (simp add: test_account_def)

theorem decode_pool_info_witness:
  "get_pool_info_from_account_info (test_env empty_account) empty_account = Inr None
   \<and> (\<exists>info. get_pool_info_from_account_info (test_env empty_account) (test_account ''POOL'' 1000)
                = Inr (Some info)
        \<and> info_asset_1_id info = 20 \<and> info_asset_2_id info = 0
        \<and> info_pool_token_asset_id info = Some 77
        \<and> info_asset_1_reserves info = 1000000 \<and> info_asset_2_reserves info = 2000000
        \<and> info_issued_pool_tokens info = 1000 \<and> info_total_fee_share info = 3
        \<and> info_protocol_fee_ratio info = 6 \<and> info_round info = 100)
   \<and> get_pool_info_from_account_info (test_env empty_account) (test_account ''USER'' 1000)
       = Inl (AssertionError [])"
proof -
  let ?E = "test_env empty_account"
  let ?ls = "\<lparr> app_id = 1, key_value =
         [(''asset_1_id'', uint_value 20), (''asset_2_id'', uint_value 0),
          (''pool_token_asset_id'', uint_value 77),
          (''issued_pool_tokens'', uint_value 1000),
          (''asset_1_reserves'', uint_value 1000000),
          (''asset_2_reserves'', uint_value 2000000),
          (''total_fee_share'', uint_value 3),
          (''protocol_fee_ratio'', uint_value 6)] \<rparr>"
  have a: "get_pool_info_from_account_info ?E empty_account = Inr None"
    using decode_pool_info [where account = empty_account and E = ?E] by (simp add: empty_account_def)
  have b: "\<exists>info. get_pool_info_from_account_info ?E (test_account ''POOL'' 1000)
                = Inr (Some info)
        \<and> info_asset_1_id info = 20 \<and> info_asset_2_id info = 0
        \<and> info_pool_token_asset_id info = Some 77
        \<and> info_asset_1_reserves info = 1000000 \<and> info_asset_2_reserves info = 2000000
        \<and> info_issued_pool_tokens info = 1000 \<and> info_total_fee_share info = 3
        \<and> info_protocol_fee_ratio info = 6 \<and> info_round info = 100"
    using decode_pool_info [where account = "test_account ''POOL'' 1000" and ls = ?ls
        and rest = "[]" and E = ?E]
    by (simp add: test_defs)
  have c: "get_pool_info_from_account_info ?E (test_account ''USER'' 1000)
       = Inl (AssertionError [])"
    using decode_pool_info [where account = "test_account ''USER'' 1000" and ls = ?ls
        and rest = "[]" and E = ?E]
    by (simp add: test_defs)
  from a b c show ?thesis by simp
qed

section \<open>The fixed-input swap quote\<close>

text \<open>A quote is returned only for an input in \<^verbatim>\<open>asset_1\<close>; on an active pool every other input raises TypeError.\<close>

lemma fixed_input_swap_quotes_asset_1_only:
  "fst (fetch_fixed_input_swap_quote E p amount_in slippage) = Inr q
     \<Longrightarrow> asset_eq (asset amount_in) (asset_1 p)"
proof (cases "refresh E p None")
  case (Inl e)
  then show "fst (fetch_fixed_input_swap_quote E p amount_in slippage) = Inr q
     \<Longrightarrow> asset_eq (asset amount_in) (asset_1 p)"
    by (simp add: fetch_fixed_input_swap_quote_def)
next
  case (Inr p')
  have ids: "asset_1 p' = asset_1 p" using refresh_keeps_identity [OF Inr] by simp
  assume "fst (fetch_fixed_input_swap_quote E p amount_in slippage) = Inr q"
  with Inr ids show "asset_eq (asset amount_in) (asset_1 p)"
    by (cases "asset_eq (asset amount_in) (asset_1 p)")
       (simp_all add: fetch_fixed_input_swap_quote_def split: option.splits if_splits)
qed

lemma fixed_input_swap_other_asset_raises:
  assumes "refresh E p None = Inr p'" and "snapshot p' = Some s" and "exists s"
    and "issued_pool_tokens s \<noteq> 0" and "\<not> asset_eq (asset amount_in) (asset_1 p)"
  shows "fetch_fixed_input_swap_quote E p amount_in slippage = (Inl TypeError, p')"
  using assms refresh_keeps_identity [OF assms(1)]
  by (simp add: fetch_fixed_input_swap_quote_def)

text \<open>
  C1 asks that an input in \<^verbatim>\<open>asset_2\<close> of an active pool be quoted against the reserves of
  \<^verbatim>\<open>asset_2\<close>. The source tests \<^verbatim>\<open>asset_1\<close> twice, so the input falls through to
  \<^verbatim>\<open>raise False\<close>: on the test ledger, with 1000 pool tokens issued, the call raises
  TypeError after the refresh.
\<close>

theorem fixed_input_swap_asset_2_raises:
  "fetch_fixed_input_swap_quote (test_env (test_account ''POOL'' 1000)) (test_pool None)
     \<lparr> asset = test_asset_2, amount = 10000 \<rparr> (1 / 20)
   = (Inl TypeError, test_pool (Some (test_refreshed 1000)))"
  by (simp add: fetch_fixed_input_swap_quote_def test_refresh_live test_pool_sel
        test_refreshed_sel asset_eq_def test_asset_ids)

section \<open>The remove quote\<close>

text \<open>Whatever the pool and the ledger, the remove quote never raises PoolHasNoLiquidity.\<close>

lemma remove_quote_never_no_liquidity:
  "fst (fetch_remove_liquidity_quote E p pool_token_asset_in slippage) \<noteq> Inl PoolHasNoLiquidity"
proof (cases "refresh E p None")
  case (Inl e)
  then have "e = AssertionError []" by (rule refresh_raises_assertion)
  with Inl show ?thesis
    by (simp add: fetch_remove_liquidity_quote_def split: option.split)
next
  case (Inr p')
  then show ?thesis
    by (simp add: fetch_remove_liquidity_quote_def Let_def
        split: option.split sum.split prod.split)
qed

text \<open>
  C2 asks that the remove quote of an existing pool without issued pool tokens fail with
  PoolHasNoLiquidity before any arithmetic. The source has no such test: the formula is
  called with zero issued pool tokens, and its division raises.
\<close>

theorem remove_quote_without_liquidity:
  "fetch_remove_liquidity_quote (test_env (test_account ''POOL'' 0))
     (test_pool (Some (test_refreshed 0))) (AmountInt 10) (1 / 20)
   = (Inl (Raised ZeroDivisionError), test_pool (Some (test_refreshed 0)))"
  by (simp add: fetch_remove_liquidity_quote_def test_refresh_live test_pool_sel
        test_refreshed_sel test_env_formulas test_remove_def)

text \<open>
  The two remove operations answer from the snapshot as it is before the refresh; the
  swap and add operations leave the refreshed pool whatever they return.
\<close>

lemma remove_quote_tests_stale_snapshot:
  "\<not> pool_exists p \<Longrightarrow>
     fetch_remove_liquidity_quote E p pool_token_asset_in slippage = (Inl BootstrapIsRequired, p)"
  by (simp add: fetch_remove_liquidity_quote_def pool_exists_def split: option.splits)

lemma single_remove_quote_tests_stale_snapshot:
  "\<not> pool_exists p \<Longrightarrow>
     fetch_single_asset_remove_liquidity_quote E p pool_token_asset_in output_asset slippage
       = (Inl BootstrapIsRequired, p)"
  by (simp add: fetch_single_asset_remove_liquidity_quote_def pool_exists_def split: option.splits)

lemma swap_and_add_quotes_refresh_first:
  assumes "refresh E p None = Inr p'"
  shows "snd (fetch_fixed_input_swap_quote E p amount_a slippage) = p'"
    and "snd (fetch_fixed_output_swap_quote E p amount_a slippage) = p'"
    and "snd (fetch_single_asset_add_liquidity_quote E p amount_a slippage) = p'"
    and "assets_match p amount_a amount_b \<Longrightarrow>
           snd (fetch_flexible_add_liquidity_quote E p amount_a amount_b slippage) = p'"
    and "assets_match p amount_a amount_b \<Longrightarrow>
           snd (fetch_initial_add_liquidity_quote E p amount_a amount_b) = p'"
  using assms
  by (simp_all add: fetch_fixed_input_swap_quote_def fetch_fixed_output_swap_quote_def
        fetch_single_asset_add_liquidity_quote_def fetch_flexible_add_liquidity_quote_def
        fetch_initial_add_liquidity_quote_def Let_def
      split: option.split sum.split prod.split)

text \<open>
  C8 asks that every quote-fetching operation refresh the snapshot before it evaluates
  its state preconditions. The remove quote tests \<^verbatim>\<open>self.exists\<close> first: on a pool that
  was never refreshed it raises BootstrapIsRequired and leaves the pool as it was,
  although the ledger holds the bootstrapped pool that a refresh would have read.
\<close>

theorem remove_quote_checks_before_refresh:
  "fetch_remove_liquidity_quote (test_env (test_account ''POOL'' 1000)) (test_pool None)
     (AmountInt 10) (1 / 20) = (Inl BootstrapIsRequired, test_pool None)
   \<and> refresh (test_env (test_account ''POOL'' 1000)) (test_pool None) None
       = Inr (test_pool (Some (test_refreshed 1000)))
   \<and> pool_exists (test_pool (Some (test_refreshed 1000)))"
  by (simp add: fetch_remove_liquidity_quote_def test_refresh_live test_pool_sel
        test_refreshed_sel pool_exists_def)

section \<open>Slippage\<close>

text \<open>What each prepared call carries, quote kind by quote kind.\<close>

lemma bound_range:
  assumes "0 \<le> s" "s < 1" "0 \<le> raw"
  shows "0 \<le> receive_bound raw s \<and> receive_bound raw s \<le> raw \<and> raw \<le> pay_bound raw s"
proof -
  have r: "(0::rat) \<le> of_int raw" using assms by simp
  have lo: "0 \<le> of_int raw * (1 - s)" using r assms by simp
  have "of_int raw * (1 - s) \<le> of_int raw * 1"
    using r assms by (intro mult_left_mono) simp_all
  then have up: "of_int raw * (1 - s) \<le> of_int raw" by simp
  have "of_int raw * 1 \<le> of_int raw * (1 + s)"
    using r assms by (intro mult_left_mono) simp_all
  then have pay: "of_int raw \<le> of_int raw * (1 + s)" by simp
  have "0 \<le> receive_bound raw s" using lo by (simp add: receive_bound_def)
  moreover have "receive_bound raw s \<le> raw"
    using up by (simp add: receive_bound_def floor_le_iff)
  moreover have "raw \<le> pay_bound raw s"
    using pay by (simp add: pay_bound_def le_ceiling_iff)
  ultimately show ?thesis by simp
qed

lemma swap_from_quote_bounds:
  "stc_asset_in_amount (prepare_swap_transactions_from_quote E p q a)
     = \<lceil>of_int (amount (sq_amount_in q)) * (1 + sq_slippage q)\<rceil>
   \<and> stc_asset_out_amount (prepare_swap_transactions_from_quote E p q a)
     = \<lfloor>of_int (amount (sq_amount_out q)) * (1 - sq_slippage q)\<rfloor>
   \<and> stc_asset_in_amount (prepare_swap_transactions_from_quote E p (q\<lparr>sq_slippage := 0\<rparr>) a)
     = amount (sq_amount_in q)
   \<and> stc_asset_out_amount (prepare_swap_transactions_from_quote E p (q\<lparr>sq_slippage := 0\<rparr>) a)
     = amount (sq_amount_out q)"
  by (simp add: prepare_swap_transactions_from_quote_def prepare_swap_transactions_def
        amount_in_with_slippage_def amount_out_with_slippage_def pay_bound_def
        receive_bound_def)

lemma flexible_from_quote_bounds:
  assumes "prepare_add_liquidity_transactions_from_quote E p (FlexibleAddLiquidityQuote fq) a
             = Inr (FlexibleAddLiquidityCall fc)"
  shows "map_option amount (faq_amounts_in fq (asset_id (asset_1 p))) = Some (flc_asset_1_amount fc)
       \<and> map_option amount (faq_amounts_in fq (asset_id (asset_2 p))) = Some (flc_asset_2_amount fc)
       \<and> flc_min_pool_token_asset_amount fc
           = \<lfloor>of_int (amount (faq_pool_token_asset_amount fq)) * (1 - faq_slippage fq)\<rfloor>"
  using assms
  by (auto simp: prepare_add_liquidity_transactions_from_quote_def
        prepare_flexible_add_liquidity_transactions_def
        faq_min_pool_token_asset_amount_with_slippage_def receive_bound_def
      split: option.splits)

lemma single_add_from_quote_bounds:
  assumes "prepare_add_liquidity_transactions_from_quote E p (SingleAssetAddLiquidityQuote sq) a
             = Inr (SingleAssetAddLiquidityCall sc)"
  shows "sac_asset_1_amount sc
           = (if asset_eq (asset (saq_amount_in sq)) (asset_1 p)
              then Some (amount (saq_amount_in sq)) else None)
       \<and> sac_asset_2_amount sc
           = (if asset_eq (asset (saq_amount_in sq)) (asset_2 p)
              then Some (amount (saq_amount_in sq)) else None)
       \<and> sac_min_pool_token_asset_amount sc
           = Some \<lfloor>of_int (amount (saq_pool_token_asset_amount sq)) * (1 - saq_slippage sq)\<rfloor>"
  using assms
  by (auto simp: prepare_add_liquidity_transactions_from_quote_def
        prepare_single_asset_add_liquidity_transactions_def
        saq_min_pool_token_asset_amount_with_slippage_def receive_bound_def
      split: option.splits)

lemma initial_from_quote_raw:
  assumes "prepare_add_liquidity_transactions_from_quote E p (InitialAddLiquidityQuote iq) a
             = Inr (InitialAddLiquidityCall ic)"
  shows "map_option amount (iaq_amounts_in iq (asset_id (asset_1 p))) = Some (ilc_asset_1_amount ic)
       \<and> map_option amount (iaq_amounts_in iq (asset_id (asset_2 p))) = Some (ilc_asset_2_amount ic)"
  using assms
  by (auto simp: prepare_add_liquidity_transactions_from_quote_def
        prepare_initial_add_liquidity_transactions_def
      split: option.splits)

lemma remove_from_quote_bounds:
  assumes "prepare_remove_liquidity_transactions_from_quote E p (RemoveLiquidityQuote rq) a
             = Inr (RemoveLiquidityCall rc)"
  shows "map_option (\<lambda>x. \<lfloor>of_int (amount x) * (1 - rlq_slippage rq)\<rfloor>)
             (rlq_amounts_out rq (asset_id (asset_1 p))) = Some (rmc_min_asset_1_amount rc)
       \<and> map_option (\<lambda>x. \<lfloor>of_int (amount x) * (1 - rlq_slippage rq)\<rfloor>)
             (rlq_amounts_out rq (asset_id (asset_2 p))) = Some (rmc_min_asset_2_amount rc)
       \<and> rmc_pool_token_asset_amount rc = amount (rlq_pool_token_asset_amount rq)"
  using assms
  by (auto simp: prepare_remove_liquidity_transactions_from_quote_def
        prepare_remove_liquidity_transactions_def rlq_amounts_out_with_slippage_def
        receive_bound_def Let_def
      split: option.splits if_splits)

lemma single_remove_from_quote_bounds:
  assumes "prepare_remove_liquidity_transactions_from_quote E p
             (SingleAssetRemoveLiquidityQuote xq) a = Inr (SingleAssetRemoveLiquidityCall xc)"
  shows "src_min_output_asset_amount xc
           = \<lfloor>of_int (amount (sarq_amount_out xq)) * (1 - sarq_slippage xq)\<rfloor>
       \<and> src_output_asset_id xc = asset_id (asset (sarq_amount_out xq))
       \<and> src_pool_token_asset_amount xc = amount (sarq_pool_token_asset_amount xq)"
  using assms
  by (auto simp: prepare_remove_liquidity_transactions_from_quote_def
        prepare_single_asset_remove_liquidity_transactions_def sarq_amount_out_with_slippage_def
        receive_bound_def Let_def
      split: option.splits)


lemma test_quote_calls:
  "prepare_add_liquidity_transactions_from_quote (test_env empty_account)
     (test_pool (Some (test_refreshed 1000))) (FlexibleAddLiquidityQuote test_flexible_quote) None
   = Inr (FlexibleAddLiquidityCall
       \<lparr> flc_validator_app_id = 1, flc_asset_1_id = 20, flc_asset_2_id = 0,
         flc_pool_token_asset_id = 77, flc_asset_1_amount = 1000, flc_asset_2_amount = 2000,
         flc_min_pool_token_asset_amount = 950, flc_sender = ''USER'' \<rparr>)"
  "prepare_add_liquidity_transactions_from_quote (test_env empty_account)
     (test_pool (Some (test_refreshed 1000))) (SingleAssetAddLiquidityQuote test_single_add_quote)
     None
   = Inr (SingleAssetAddLiquidityCall
       \<lparr> sac_validator_app_id = 1, sac_asset_1_id = 20, sac_asset_2_id = 0,
         sac_pool_token_asset_id = 77, sac_asset_1_amount = None,
         sac_asset_2_amount = Some 2000, sac_min_pool_token_asset_amount = Some 950,
         sac_sender = ''USER'' \<rparr>)"
  "prepare_add_liquidity_transactions_from_quote (test_env empty_account)
     (test_pool (Some (test_refreshed 1000))) (InitialAddLiquidityQuote test_initial_quote) None
   = Inr (InitialAddLiquidityCall
       \<lparr> ilc_validator_app_id = 1, ilc_asset_1_id = 20, ilc_asset_2_id = 0,
         ilc_pool_token_asset_id = 77, ilc_asset_1_amount = 1000, ilc_asset_2_amount = 2000,
         ilc_sender = ''USER'' \<rparr>)"
  "prepare_remove_liquidity_transactions_from_quote (test_env empty_account)
     (test_pool (Some (test_refreshed 1000))) (RemoveLiquidityQuote test_remove_quote) None
   = Inr (RemoveLiquidityCall
       \<lparr> rmc_validator_app_id = 1, rmc_asset_1_id = 20, rmc_asset_2_id = 0,
         rmc_pool_token_asset_id = 77, rmc_min_asset_1_amount = 950,
         rmc_min_asset_2_amount = 1900, rmc_pool_token_asset_amount = 10,
         rmc_sender = ''USER'' \<rparr>)"
  "prepare_remove_liquidity_transactions_from_quote (test_env empty_account)
     (test_pool (Some (test_refreshed 1000)))
     (SingleAssetRemoveLiquidityQuote test_single_remove_quote) None
   = Inr (SingleAssetRemoveLiquidityCall
       \<lparr> src_validator_app_id = 1, src_asset_1_id = 20, src_asset_2_id = 0,
         src_pool_token_asset_id = 77, src_output_asset_id = 20,
         src_min_output_asset_amount = 950, src_pool_token_asset_amount = 10,
         src_sender = ''USER'' \<rparr>)"
  by (simp_all add: prepare_add_liquidity_transactions_from_quote_def
        prepare_remove_liquidity_transactions_from_quote_def
        prepare_flexible_add_liquidity_transactions_def
        prepare_single_asset_add_liquidity_transactions_def
        prepare_initial_add_liquidity_transactions_def
        prepare_remove_liquidity_transactions_def
        prepare_single_asset_remove_liquidity_transactions_def
        faq_min_pool_token_asset_amount_with_slippage_def
        saq_min_pool_token_asset_amount_with_slippage_def
        rlq_amounts_out_with_slippage_def sarq_amount_out_with_slippage_def
        test_flexible_quote_def test_single_add_quote_def test_initial_quote_def
        test_remove_quote_def test_single_remove_quote_def test_pool_token_def
        test_pool_sel test_refreshed_sel test_asset_ids asset_eq_def receive_bound_def
        address_or_user_def test_env_def)

text \<open>
  C7, as amended. The swap transactions prepared from a quote carry \<open>ceil(raw * (1+s))\<close>
  as the amount paid and \<open>floor(raw * (1-s))\<close> as the amount received. The add and remove
  transactions prepared from a quote carry \<open>floor(raw * (1-s))\<close> for what the participant
  receives (the minted pool tokens, the withdrawal outputs) and the quoted amounts
  themselves, with no upper bound, for what the participant pays (the deposits, the pool
  tokens burned); the initial add carries its deposits and no bound. With \<open>s = 0\<close> both
  bounds are the raw amount; for \<open>0 \<le> s < 1\<close> and a non-negative raw amount the lower
  bound lies between 0 and the raw amount and the upper bound is not below it; for
  \<open>s = 0.05\<close> and a raw amount of 1000 the lower bound is 950, which accepts 950 and
  rejects 949.
\<close>

theorem slippage_bounds:
  "stc_asset_in_amount (prepare_swap_transactions_from_quote E p q a)
     = \<lceil>of_int (amount (sq_amount_in q)) * (1 + sq_slippage q)\<rceil>
   \<and> stc_asset_out_amount (prepare_swap_transactions_from_quote E p q a)
     = \<lfloor>of_int (amount (sq_amount_out q)) * (1 - sq_slippage q)\<rfloor>
   \<and> stc_asset_in_amount (prepare_swap_transactions_from_quote E p (q\<lparr>sq_slippage := 0\<rparr>) a)
     = amount (sq_amount_in q)
   \<and> stc_asset_out_amount (prepare_swap_transactions_from_quote E p (q\<lparr>sq_slippage := 0\<rparr>) a)
     = amount (sq_amount_out q)
   \<and> (prepare_add_liquidity_transactions_from_quote E p (FlexibleAddLiquidityQuote fq) a
         = Inr (FlexibleAddLiquidityCall fc) \<longrightarrow>
        map_option amount (faq_amounts_in fq (asset_id (asset_1 p))) = Some (flc_asset_1_amount fc)
        \<and> map_option amount (faq_amounts_in fq (asset_id (asset_2 p)))
            = Some (flc_asset_2_amount fc)
        \<and> flc_min_pool_token_asset_amount fc
            = \<lfloor>of_int (amount (faq_pool_token_asset_amount fq)) * (1 - faq_slippage fq)\<rfloor>)
   \<and> (prepare_add_liquidity_transactions_from_quote E p (SingleAssetAddLiquidityQuote sq) a
         = Inr (SingleAssetAddLiquidityCall sc) \<longrightarrow>
        sac_asset_1_amount sc
            = (if asset_eq (asset (saq_amount_in sq)) (asset_1 p)
               then Some (amount (saq_amount_in sq)) else None)
        \<and> sac_asset_2_amount sc
            = (if asset_eq (asset (saq_amount_in sq)) (asset_2 p)
               then Some (amount (saq_amount_in sq)) else None)
        \<and> sac_min_pool_token_asset_amount sc
            = Some \<lfloor>of_int (amount (saq_pool_token_asset_amount sq)) * (1 - saq_slippage sq)\<rfloor>)
   \<and> (prepare_add_liquidity_transactions_from_quote E p (InitialAddLiquidityQuote iq) a
         = Inr (InitialAddLiquidityCall ic) \<longrightarrow>
        map_option amount (iaq_amounts_in iq (asset_id (asset_1 p))) = Some (ilc_asset_1_amount ic)
        \<and> map_option amount (iaq_amounts_in iq (asset_id (asset_2 p)))
            = Some (ilc_asset_2_amount ic))
   \<and> (prepare_remove_liquidity_transactions_from_quote E p (RemoveLiquidityQuote rq) a
         = Inr (RemoveLiquidityCall rc) \<longrightarrow>
        map_option (\<lambda>x. \<lfloor>of_int (amount x) * (1 - rlq_slippage rq)\<rfloor>)
            (rlq_amounts_out rq (asset_id (asset_1 p))) = Some (rmc_min_asset_1_amount rc)
        \<and> map_option (\<lambda>x. \<lfloor>of_int (amount x) * (1 - rlq_slippage rq)\<rfloor>)
            (rlq_amounts_out rq (asset_id (asset_2 p))) = Some (rmc_min_asset_2_amount rc)
        \<and> rmc_pool_token_asset_amount rc = amount (rlq_pool_token_asset_amount rq))
   \<and> (prepare_remove_liquidity_transactions_from_quote E p
          (SingleAssetRemoveLiquidityQuote xq) a = Inr (SingleAssetRemoveLiquidityCall xc) \<longrightarrow>
        src_min_output_asset_amount xc
            = \<lfloor>of_int (amount (sarq_amount_out xq)) * (1 - sarq_slippage xq)\<rfloor>
        \<and> src_output_asset_id xc = asset_id (asset (sarq_amount_out xq))
        \<and> src_pool_token_asset_amount xc = amount (sarq_pool_token_asset_amount xq))
   \<and> pay_bound raw 0 = raw \<and> receive_bound raw 0 = raw
   \<and> (0 \<le> s \<and> s < 1 \<and> 0 \<le> raw \<longrightarrow>
        0 \<le> receive_bound raw s \<and> receive_bound raw s \<le> raw \<and> raw \<le> pay_bound raw s)
   \<and> receive_bound 1000 (5 / 100) = 950
   \<and> bound_check_accepts (receive_bound 1000 (5 / 100)) 950
   \<and> \<not> bound_check_accepts (receive_bound 1000 (5 / 100)) 949"
proof -
  have zero: "pay_bound raw 0 = raw \<and> receive_bound raw 0 = raw"
    by (simp add: pay_bound_def receive_bound_def)
  have v: "receive_bound 1000 (5 / 100) = 950" by (simp add: receive_bound_def)
  have check: "bound_check_accepts (receive_bound 1000 (5 / 100)) 950
      \<and> \<not> bound_check_accepts (receive_bound 1000 (5 / 100)) 949"
    by (simp add: bound_check_accepts_def receive_bound_def)
  show ?thesis
    by (intro conjI impI zero [THEN conjunct1] zero [THEN conjunct2] v
          check [THEN conjunct1] check [THEN conjunct2]
          swap_from_quote_bounds [THEN conjunct1]
          swap_from_quote_bounds [THEN conjunct2, THEN conjunct1]
          swap_from_quote_bounds [THEN conjunct2, THEN conjunct2, THEN conjunct1]
          swap_from_quote_bounds [THEN conjunct2, THEN conjunct2, THEN conjunct2])
       (auto dest: flexible_from_quote_bounds single_add_from_quote_bounds
          initial_from_quote_raw remove_from_quote_bounds single_remove_from_quote_bounds
          bound_range)
qed

text \<open>
  As C7 is written, every amount the participant pays carries the upper bound
  \<open>ceil(raw * (1+s))\<close>: the flexible add transactions prepared from a quote with
  \<open>s = 0.05\<close> carry the deposits 1000 and 2000 as quoted, not 1050 and 2100.
\<close>

theorem slippage_bounds_counterexample:
  "prepare_add_liquidity_transactions_from_quote (test_env empty_account)
     (test_pool (Some (test_refreshed 1000))) (FlexibleAddLiquidityQuote test_flexible_quote) None
   = Inr (FlexibleAddLiquidityCall
       \<lparr> flc_validator_app_id = 1, flc_asset_1_id = 20, flc_asset_2_id = 0,
         flc_pool_token_asset_id = 77, flc_asset_1_amount = 1000, flc_asset_2_amount = 2000,
         flc_min_pool_token_asset_amount = 950, flc_sender = ''USER'' \<rparr>)
   \<and> map_option amount (faq_amounts_in test_flexible_quote 20) = Some 1000
   \<and> pay_bound 1000 (faq_slippage test_flexible_quote) = 1050
   \<and> map_option amount (faq_amounts_in test_flexible_quote 0) = Some 2000
   \<and> pay_bound 2000 (faq_slippage test_flexible_quote) = 2100"
  by (simp add: test_quote_calls) (simp add: test_flexible_quote_def pay_bound_def)

theorem slippage_bounds_witness:
  "prepare_add_liquidity_transactions_from_quote (test_env empty_account)
     (test_pool (Some (test_refreshed 1000))) (FlexibleAddLiquidityQuote test_flexible_quote) None
   = Inr (FlexibleAddLiquidityCall
       \<lparr> flc_validator_app_id = 1, flc_asset_1_id = 20, flc_asset_2_id = 0,
         flc_pool_token_asset_id = 77, flc_asset_1_amount = 1000, flc_asset_2_amount = 2000,
         flc_min_pool_token_asset_amount = 950, flc_sender = ''USER'' \<rparr>)
   \<and> \<lfloor>of_int (amount (faq_pool_token_asset_amount test_flexible_quote))
        * (1 - faq_slippage test_flexible_quote)\<rfloor> = 950
   \<and> prepare_add_liquidity_transactions_from_quote (test_env empty_account)
     (test_pool (Some (test_refreshed 1000))) (SingleAssetAddLiquidityQuote test_single_add_quote)
     None
   = Inr (SingleAssetAddLiquidityCall
       \<lparr> sac_validator_app_id = 1, sac_asset_1_id = 20, sac_asset_2_id = 0,
         sac_pool_token_asset_id = 77, sac_asset_1_amount = None,
         sac_asset_2_amount = Some 2000, sac_min_pool_token_asset_amount = Some 950,
         sac_sender = ''USER'' \<rparr>)
   \<and> \<lfloor>of_int (amount (saq_pool_token_asset_amount test_single_add_quote))
        * (1 - saq_slippage test_single_add_quote)\<rfloor> = 950
   \<and> prepare_add_liquidity_transactions_from_quote (test_env empty_account)
     (test_pool (Some (test_refreshed 1000))) (InitialAddLiquidityQuote test_initial_quote) None
   = Inr (InitialAddLiquidityCall
       \<lparr> ilc_validator_app_id = 1, ilc_asset_1_id = 20, ilc_asset_2_id = 0,
         ilc_pool_token_asset_id = 77, ilc_asset_1_amount = 1000, ilc_asset_2_amount = 2000,
         ilc_sender = ''USER'' \<rparr>)
   \<and> map_option amount (iaq_amounts_in test_initial_quote 20) = Some 1000
   \<and> prepare_remove_liquidity_transactions_from_quote (test_env empty_account)
     (test_pool (Some (test_refreshed 1000))) (RemoveLiquidityQuote test_remove_quote) None
   = Inr (RemoveLiquidityCall
       \<lparr> rmc_validator_app_id = 1, rmc_asset_1_id = 20, rmc_asset_2_id = 0,
         rmc_pool_token_asset_id = 77, rmc_min_asset_1_amount = 950,
         rmc_min_asset_2_amount = 1900, rmc_pool_token_asset_amount = 10,
         rmc_sender = ''USER'' \<rparr>)
   \<and> map_option (\<lambda>x. \<lfloor>of_int (amount x) * (1 - rlq_slippage test_remove_quote)\<rfloor>)
        (rlq_amounts_out test_remove_quote 0) = Some 1900
   \<and> prepare_remove_liquidity_transactions_from_quote (test_env empty_account)
     (test_pool (Some (test_refreshed 1000)))
     (SingleAssetRemoveLiquidityQuote test_single_remove_quote) None
   = Inr (SingleAssetRemoveLiquidityCall
       \<lparr> src_validator_app_id = 1, src_asset_1_id = 20, src_asset_2_id = 0,
         src_pool_token_asset_id = 77, src_output_asset_id = 20,
         src_min_output_asset_amount = 950, src_pool_token_asset_amount = 10,
         src_sender = ''USER'' \<rparr>)
   \<and> \<lfloor>of_int (amount (sarq_amount_out test_single_remove_quote))
        * (1 - sarq_slippage test_single_remove_quote)\<rfloor> = 950
   \<and> (0::rat) \<le> 1 / 20 \<and> (1 / 20 :: rat) < 1 \<and> (0::int) \<le> 1000
   \<and> 0 \<le> receive_bound 1000 (1 / 20) \<and> receive_bound 1000 (1 / 20) \<le> 1000
   \<and> 1000 \<le> pay_bound 1000 (1 / 20)"
proof -
  note inst = slippage_bounds
    [where E = "test_env empty_account" and p = "test_pool (Some (test_refreshed 1000))"
       and a = None
       and fq = test_flexible_quote
       and fc = "\<lparr> flc_validator_app_id = 1, flc_asset_1_id = 20, flc_asset_2_id = 0,
         flc_pool_token_asset_id = 77, flc_asset_1_amount = 1000, flc_asset_2_amount = 2000,
         flc_min_pool_token_asset_amount = 950, flc_sender = ''USER'' \<rparr>"
       and sq = test_single_add_quote
       and sc = "\<lparr> sac_validator_app_id = 1, sac_asset_1_id = 20, sac_asset_2_id = 0,
         sac_pool_token_asset_id = 77, sac_asset_1_amount = None,
         sac_asset_2_amount = Some 2000, sac_min_pool_token_asset_amount = Some 950,
         sac_sender = ''USER'' \<rparr>"
       and iq = test_initial_quote
       and ic = "\<lparr> ilc_validator_app_id = 1, ilc_asset_1_id = 20, ilc_asset_2_id = 0,
         ilc_pool_token_asset_id = 77, ilc_asset_1_amount = 1000, ilc_asset_2_amount = 2000,
         ilc_sender = ''USER'' \<rparr>"
       and rq = test_remove_quote
       and rc = "\<lparr> rmc_validator_app_id = 1, rmc_asset_1_id = 20, rmc_asset_2_id = 0,
         rmc_pool_token_asset_id = 77, rmc_min_asset_1_amount = 950,
         rmc_min_asset_2_amount = 1900, rmc_pool_token_asset_amount = 10,
         rmc_sender = ''USER'' \<rparr>"
       and xq = test_single_remove_quote
       and xc = "\<lparr> src_validator_app_id = 1, src_asset_1_id = 20, src_asset_2_id = 0,
         src_pool_token_asset_id = 77, src_output_asset_id = 20,
         src_min_output_asset_amount = 950, src_pool_token_asset_amount = 10,
         src_sender = ''USER'' \<rparr>"
       and s = "1 / 20" and raw = 1000]
  from inst test_quote_calls show ?thesis
    by (simp add: test_pool_sel test_asset_ids)
qed

section \<open>The canonical order of the assets\<close>

lemma same_assets_refl: "same_assets p p" by (simp add: same_assets_def)

lemma refresh_same_assets: "refresh E p info = Inr p' \<Longrightarrow> same_assets p p'"
  by (simp add: same_assets_def refresh_keeps_identity)

lemma update_same_assets: "same_assets p (update_from_info E p info)"
  by (simp add: same_assets_def update_from_info_def)

lemma flexible_state: "unchanged_or_refreshed E p (snd (fetch_flexible_add_liquidity_quote E p a b s))"
  by (simp add: fetch_flexible_add_liquidity_quote_def unchanged_or_refreshed_def Let_def
      split: sum.split option.split prod.split)

lemma single_add_state: "unchanged_or_refreshed E p (snd (fetch_single_asset_add_liquidity_quote E p a s))"
  by (simp add: fetch_single_asset_add_liquidity_quote_def unchanged_or_refreshed_def Let_def
      split: sum.split option.split prod.split)

lemma initial_state: "unchanged_or_refreshed E p (snd (fetch_initial_add_liquidity_quote E p a b))"
  by (simp add: fetch_initial_add_liquidity_quote_def unchanged_or_refreshed_def Let_def
      split: sum.split option.split prod.split)

lemma remove_state: "unchanged_or_refreshed E p (snd (fetch_remove_liquidity_quote E p n s))"
  by (simp add: fetch_remove_liquidity_quote_def unchanged_or_refreshed_def Let_def
      split: sum.split option.split prod.split)

lemma single_remove_state:
  "unchanged_or_refreshed E p (snd (fetch_single_asset_remove_liquidity_quote E p n a s))"
  by (simp add: fetch_single_asset_remove_liquidity_quote_def unchanged_or_refreshed_def Let_def
      split: sum.split option.split prod.split)

lemma fixed_input_state: "unchanged_or_refreshed E p (snd (fetch_fixed_input_swap_quote E p a s))"
  by (simp add: fetch_fixed_input_swap_quote_def unchanged_or_refreshed_def Let_def
      split: sum.split option.split prod.split)

lemma fixed_output_state: "unchanged_or_refreshed E p (snd (fetch_fixed_output_swap_quote E p a s))"
  by (simp add: fetch_fixed_output_swap_quote_def unchanged_or_refreshed_def Let_def
      split: sum.split option.split prod.split)

lemma unchanged_or_refreshed_same_assets: "unchanged_or_refreshed E p q \<Longrightarrow> same_assets p q"
  by (auto simp: unchanged_or_refreshed_def same_assets_refl refresh_same_assets)

lemmas quote_same_assets =
  flexible_state [THEN unchanged_or_refreshed_same_assets]
  single_add_state [THEN unchanged_or_refreshed_same_assets]
  initial_state [THEN unchanged_or_refreshed_same_assets]
  remove_state [THEN unchanged_or_refreshed_same_assets]
  single_remove_state [THEN unchanged_or_refreshed_same_assets]
  fixed_input_state [THEN unchanged_or_refreshed_same_assets]
  fixed_output_state [THEN unchanged_or_refreshed_same_assets]

lemma apply_operation_same_assets: "same_assets p (apply_operation p x)"
proof (cases x)
  case (Pair E op)
  show ?thesis
  proof (cases op)
    case (Refresh info)
    with Pair show ?thesis
      by (auto simp: same_assets_refl refresh_same_assets split: sum.split)
  next
    case (UpdateFromInfo info)
    with Pair show ?thesis by (simp add: update_same_assets)
  qed (use Pair in \<open>simp_all add: quote_same_assets\<close>)
qed

lemma foldl_same_assets: "same_assets p (foldl apply_operation p xs)"
proof (induction xs arbitrary: p)
  case Nil
  show ?case by (simp add: same_assets_refl)
next
  case (Cons x xs)
  have "same_assets p (apply_operation p x)" by (rule apply_operation_same_assets)
  moreover have "same_assets (apply_operation p x) (foldl apply_operation (apply_operation p x) xs)"
    by (rule Cons.IH)
  ultimately show ?case by (simp add: same_assets_def)
qed

text \<open>
  C5. For two assets with distinct ids, given to the constructor in either order, the
  constructed pool has \<open>asset_1.id > asset_2.id\<close>, its two assets are the two given, both
  orders construct the same pool, and no sequence of operations, each on its own ledger
  state, changes \<open>asset_1\<close> or \<open>asset_2\<close>.
\<close>

theorem pool_assets_canonical:
  assumes "asset_id (resolve_asset E asset_a) \<noteq> asset_id (resolve_asset E asset_b)"
    and "Pool_init E asset_a asset_b info fetch app = Inr p"
  shows "asset_id (asset_2 p) < asset_id (asset_1 p)
     \<and> {asset_1 p, asset_2 p} = {resolve_asset E asset_a, resolve_asset E asset_b}
     \<and> Pool_init E asset_b asset_a info fetch app = Inr p
     \<and> asset_1 (foldl apply_operation p operations) = asset_1 p
     \<and> asset_2 (foldl apply_operation p operations) = asset_2 p"
proof -
  let ?a = "resolve_asset E asset_a" and ?b = "resolve_asset E asset_b"
  let ?p0 = "\<lparr> validator_app_id = (case app of Some v \<Rightarrow> v | None \<Rightarrow> client_validator_app_id E),
                asset_1 = (if asset_id ?a > asset_id ?b then ?a else ?b),
                asset_2 = (if asset_id ?a > asset_id ?b then ?b else ?a),
                snapshot = None \<rparr>"
  have same: "same_assets ?p0 p"
    using assms(2)
    by (auto simp: Pool_init_def Let_def same_assets_refl refresh_same_assets update_same_assets
        split: if_splits option.splits)
  have swap: "Pool_init E asset_b asset_a info fetch app = Pool_init E asset_a asset_b info fetch app"
    using assms(1) by (auto simp: Pool_init_def Let_def)
  have ordered: "asset_id (asset_2 p) < asset_id (asset_1 p)"
    using same assms(1) by (auto simp: same_assets_def)
  have pair: "{asset_1 p, asset_2 p} = {?a, ?b}"
    using same by (auto simp: same_assets_def)
  from ordered pair swap assms(2) foldl_same_assets [of p operations]
  show ?thesis by (simp add: same_assets_def)
qed


theorem pool_assets_canonical_witness:
  "asset_id (resolve_asset (test_env (test_account ''POOL'' 1000)) (AssetObj test_asset_2))
     \<noteq> asset_id (resolve_asset (test_env (test_account ''POOL'' 1000)) (AssetObj test_asset_1))
   \<and> Pool_init (test_env (test_account ''POOL'' 1000)) (AssetObj test_asset_2)
        (AssetObj test_asset_1) None True None = Inr (test_pool (Some (test_refreshed 1000)))
   \<and> asset_id (asset_2 (test_pool (Some (test_refreshed 1000))))
        < asset_id (asset_1 (test_pool (Some (test_refreshed 1000))))
   \<and> Pool_init (test_env (test_account ''POOL'' 1000)) (AssetObj test_asset_1)
        (AssetObj test_asset_2) None True None = Inr (test_pool (Some (test_refreshed 1000)))
   \<and> asset_1 (foldl apply_operation (test_pool (Some (test_refreshed 1000)))
        [(test_env (test_account ''POOL'' 0), RemoveQuote (AmountInt 10) 0),
         (test_env empty_account, Refresh None)]) = test_asset_1
   \<and> asset_2 (foldl apply_operation (test_pool (Some (test_refreshed 1000)))
        [(test_env (test_account ''POOL'' 0), RemoveQuote (AmountInt 10) 0),
         (test_env empty_account, Refresh None)]) = test_asset_2"
proof -
  let ?E = "test_env (test_account ''POOL'' 1000)"
  have distinct: "asset_id (resolve_asset ?E (AssetObj test_asset_2))
     \<noteq> asset_id (resolve_asset ?E (AssetObj test_asset_1))"
    by (simp add: resolve_asset_def test_asset_ids)
  have "client_validator_app_id ?E = 1" by (simp add: test_env_def)
  then have built: "Pool_init ?E (AssetObj test_asset_2) (AssetObj test_asset_1) None True None
      = Inr (test_pool (Some (test_refreshed 1000)))"
    using test_refresh_live [of 1000 None]
    by (simp add: Pool_init_def resolve_asset_def test_asset_ids test_pool_def)
  let ?ops = "[(test_env (test_account ''POOL'' 0), RemoveQuote (AmountInt 10) 0),
         (test_env empty_account, Refresh None)]"
  from pool_assets_canonical [OF distinct built, where operations = ?ops] distinct built
  show ?thesis by (simp only: test_pool_sel) simp
qed

section \<open>The single-asset remove quote\<close>

text \<open>
  C3. For an existing pool and an output asset that is one of its two assets, the
  single-asset remove quote's amount out is the desired asset's proportional payout plus
  the output of the fixed-input swap of the unwanted asset's payout, the swap's supplies
  being the refreshed reserves less both payouts; the quote fails exactly when one of the
  two formulas raises.
\<close>

theorem single_asset_remove_amount_out:
  assumes "pool_exists p"
    and "refresh E p None = Inr p'"
    and "snapshot p' = Some s"
    and "asset_eq output_asset (asset_1 p) \<or> asset_eq output_asset (asset_2 p)"
  shows "map_sum id (\<lambda>q. (asset_id (asset (sarq_amount_out q)), amount (sarq_amount_out q)))
           (fst (fetch_single_asset_remove_liquidity_quote E p burn output_asset slippage))
         = map_sum Raised (\<lambda>v. (asset_id output_asset, v))
             (single_asset_remove_spec E s
                (case burn of AmountInt n \<Rightarrow> n | AmountObj a \<Rightarrow> amount a)
                (asset_eq output_asset (asset_1 p)))"
proof -
  obtain s0 where s0: "snapshot p = Some s0" "exists s0"
    using assms(1) by (auto simp: pool_exists_def split: option.splits)
  have ids: "asset_1 p' = asset_1 p" "asset_2 p' = asset_2 p"
    using refresh_keeps_identity [OF assms(2)] by simp_all
  show ?thesis
  proof (cases "calculate_remove_liquidity_output_amounts E
             (case burn of AmountInt n \<Rightarrow> n | AmountObj a \<Rightarrow> amount a)
             (asset_1_reserves s) (asset_2_reserves s) (issued_pool_tokens s)")
    case (Inl x)
    then show ?thesis
      using s0 assms(2,3)
      by (cases burn)
         (simp_all add: fetch_single_asset_remove_liquidity_quote_def single_asset_remove_spec_def)
  next
    case (Inr outs)
    obtain out_1 out_2 where outs: "outs = (out_1, out_2)" by (cases outs)
    show ?thesis
    proof (cases "asset_eq output_asset (asset_1 p)")
      case True
      then show ?thesis
        using s0 assms(2,3) Inr outs ids
        by (cases burn)
           (auto simp: fetch_single_asset_remove_liquidity_quote_def single_asset_remove_spec_def
              asset_eq_def split: sum.split)
    next
      case False
      then have "asset_eq output_asset (asset_2 p)" using assms(4) by simp
      then show ?thesis
        using False s0 assms(2,3) Inr outs ids
        by (cases burn)
           (auto simp: fetch_single_asset_remove_liquidity_quote_def single_asset_remove_spec_def
              asset_eq_def split: sum.split)
    qed
  qed
qed

theorem single_asset_remove_amount_out_witness:
  "pool_exists (test_pool (Some (test_refreshed 1000)))
   \<and> refresh (test_env (test_account ''POOL'' 1000)) (test_pool (Some (test_refreshed 1000))) None
       = Inr (test_pool (Some (test_refreshed 1000)))
   \<and> snapshot (test_pool (Some (test_refreshed 1000))) = Some (test_refreshed 1000)
   \<and> asset_eq test_asset_1 (asset_1 (test_pool (Some (test_refreshed 1000))))
   \<and> single_asset_remove_spec (test_env (test_account ''POOL'' 1000)) (test_refreshed 1000) 10 True
       = Inr 19870
   \<and> map_sum id (\<lambda>q. (asset_id (asset (sarq_amount_out q)), amount (sarq_amount_out q)))
         (fst (fetch_single_asset_remove_liquidity_quote (test_env (test_account ''POOL'' 1000))
                 (test_pool (Some (test_refreshed 1000))) (AmountInt 10) test_asset_1 (1 / 20)))
       = Inr (20, 19870)"
proof -
  let ?E = "test_env (test_account ''POOL'' 1000)"
  let ?p = "test_pool (Some (test_refreshed 1000))"
  have ex: "pool_exists ?p" by (simp add: pool_exists_def test_pool_sel test_refreshed_sel)
  have re: "refresh ?E ?p None = Inr ?p" by (rule test_refresh_live)
  have sn: "snapshot ?p = Some (test_refreshed 1000)" by (simp add: test_pool_sel)
  have eq: "asset_eq test_asset_1 (asset_1 ?p)" by (simp add: asset_eq_def test_pool_sel)
  then have as: "asset_eq test_asset_1 (asset_1 ?p) \<or> asset_eq test_asset_1 (asset_2 ?p)" ..
  have spec: "single_asset_remove_spec ?E (test_refreshed 1000) 10 True = Inr 19870"
    by (simp add: single_asset_remove_spec_def test_env_formulas test_refreshed_sel
          test_remove_def test_fixed_input_swap_def)
  from single_asset_remove_amount_out [OF ex re sn as, of "AmountInt 10" "1 / 20"]
    ex re sn eq spec
  show ?thesis by (simp add: test_asset_ids)
qed

section \<open>The flexible add quote\<close>

lemma decode_ignores_formula:
  "get_pool_info_from_account_info (E\<lparr>calculate_subsequent_add_liquidity := f\<rparr>) account
     = get_pool_info_from_account_info E account"
  by (simp add: get_pool_info_from_account_info_def Let_def split: list.split)

lemma update_ignores_formula:
  "update_from_info (E\<lparr>calculate_subsequent_add_liquidity := f\<rparr>) p info
     = update_from_info E p info"
  by (simp add: update_from_info_def)

lemma get_pool_info_ignores_formula:
  "get_pool_info (E\<lparr>calculate_subsequent_add_liquidity := f\<rparr>) v a b = get_pool_info E v a b"
  by (simp add: get_pool_info_def decode_ignores_formula)

lemma refresh_ignores_formula:
  "refresh (E\<lparr>calculate_subsequent_add_liquidity := f\<rparr>) p info = refresh E p info"
  by (simp add: refresh_def get_pool_info_ignores_formula update_ignores_formula
        cong: option.case_cong sum.case_cong)

lemma test_refresh_empty: "refresh (test_env empty_account) (test_pool s) None = Inr (test_pool s)"
  by (simp add: refresh_def get_pool_info_def get_pool_info_from_account_info_def
        test_env_def empty_account_def)

text \<open>
  C4. When the given pair covers the pool's two assets, the flexible add quote fails with
  BootstrapIsRequired exactly when the refreshed pool does not exist, and with
  PoolHasNoLiquidity exactly when it exists with no issued pool tokens; a pair that does
  not cover the two assets fails the assertion and leaves the pool as it was. In each of
  the three cases the call is the same whatever \<^verbatim>\<open>calculate_subsequent_add_liquidity\<close>
  computes: the formula is not reached.
\<close>

theorem flexible_add_preconditions:
  "(fst (fetch_flexible_add_liquidity_quote E p amount_a amount_b slippage) = Inl BootstrapIsRequired
      \<longleftrightarrow> assets_match p amount_a amount_b
          \<and> (\<exists>p'. refresh E p None = Inr p' \<and> \<not> pool_exists p'))
   \<and> (fst (fetch_flexible_add_liquidity_quote E p amount_a amount_b slippage) = Inl PoolHasNoLiquidity
      \<longleftrightarrow> assets_match p amount_a amount_b
          \<and> (\<exists>p' s. refresh E p None = Inr p' \<and> snapshot p' = Some s \<and> exists s
                \<and> issued_pool_tokens s = 0))
   \<and> (\<not> assets_match p amount_a amount_b \<longrightarrow>
        fetch_flexible_add_liquidity_quote E p amount_a amount_b slippage
          = (Inl (AssertionError ''Pool assets and given assets don't match.''), p))
   \<and> (fst (fetch_flexible_add_liquidity_quote E p amount_a amount_b slippage)
          \<in> {Inl BootstrapIsRequired, Inl PoolHasNoLiquidity,
              Inl (AssertionError ''Pool assets and given assets don't match.'')}
        \<longrightarrow> (\<forall>f. fetch_flexible_add_liquidity_quote
                   (E\<lparr>calculate_subsequent_add_liquidity := f\<rparr>) p amount_a amount_b slippage
                 = fetch_flexible_add_liquidity_quote E p amount_a amount_b slippage))"
proof (cases "assets_match p amount_a amount_b")
  case False
  then show ?thesis by (simp add: fetch_flexible_add_liquidity_quote_def)
next
  case match: True
  show ?thesis
  proof (cases "refresh E p None")
    case (Inl e)
    then have "e = AssertionError []" by (rule refresh_raises_assertion)
    with Inl match show ?thesis
      by (simp add: fetch_flexible_add_liquidity_quote_def refresh_ignores_formula)
  next
    case (Inr p')
    show ?thesis
    proof (cases "snapshot p'")
      case None
      with Inr match show ?thesis
        by (simp add: fetch_flexible_add_liquidity_quote_def refresh_ignores_formula
              pool_exists_def)
    next
      case (Some s)
      show ?thesis
      proof (cases "exists s \<and> issued_pool_tokens s \<noteq> 0")
        case False
        with Some Inr match show ?thesis
          by (auto simp: fetch_flexible_add_liquidity_quote_def refresh_ignores_formula
                pool_exists_def)
      next
        case True
        with Some Inr match show ?thesis
          by (simp add: fetch_flexible_add_liquidity_quote_def refresh_ignores_formula
                pool_exists_def split: sum.split prod.split)
      qed
    qed
  qed
qed

theorem flexible_add_preconditions_witness:
  "fst (fetch_flexible_add_liquidity_quote (test_env empty_account) (test_pool None)
          \<lparr>asset = test_asset_1, amount = 100\<rparr> \<lparr>asset = test_asset_2, amount = 200\<rparr> (1 / 20))
     = Inl BootstrapIsRequired
   \<and> fst (fetch_flexible_add_liquidity_quote (test_env (test_account ''POOL'' 0)) (test_pool None)
          \<lparr>asset = test_asset_1, amount = 100\<rparr> \<lparr>asset = test_asset_2, amount = 200\<rparr> (1 / 20))
     = Inl PoolHasNoLiquidity
   \<and> \<not> assets_match (test_pool None)
          \<lparr>asset = test_asset_1, amount = 100\<rparr> \<lparr>asset = test_asset_1, amount = 200\<rparr>
   \<and> fetch_flexible_add_liquidity_quote (test_env empty_account) (test_pool None)
          \<lparr>asset = test_asset_1, amount = 100\<rparr> \<lparr>asset = test_asset_1, amount = 200\<rparr> (1 / 20)
     = (Inl (AssertionError ''Pool assets and given assets don't match.''), test_pool None)
   \<and> fetch_flexible_add_liquidity_quote
        ((test_env (test_account ''POOL'' 0))
           \<lparr>calculate_subsequent_add_liquidity := (\<lambda>r1 r2 n fee a1 a2. Inl ZeroDivisionError)\<rparr>)
        (test_pool None)
        \<lparr>asset = test_asset_1, amount = 100\<rparr> \<lparr>asset = test_asset_2, amount = 200\<rparr> (1 / 20)
     = fetch_flexible_add_liquidity_quote (test_env (test_account ''POOL'' 0)) (test_pool None)
        \<lparr>asset = test_asset_1, amount = 100\<rparr> \<lparr>asset = test_asset_2, amount = 200\<rparr> (1 / 20)"
proof -
  let ?A = "\<lparr>asset = test_asset_1, amount = 100\<rparr>"
  let ?A' = "\<lparr>asset = test_asset_1, amount = 200\<rparr>"
  let ?B = "\<lparr>asset = test_asset_2, amount = 200\<rparr>"
  let ?E0 = "test_env empty_account" and ?E1 = "test_env (test_account ''POOL'' 0)"
  have m: "assets_match (test_pool None) ?A ?B"
    by (simp add: assets_match_def test_pool_sel test_asset_ids)
  have nm: "\<not> assets_match (test_pool None) ?A ?A'"
    by (simp add: assets_match_def test_pool_sel test_asset_ids)
  have r0: "refresh ?E0 (test_pool None) None = Inr (test_pool None)"
    by (rule test_refresh_empty)
  have ne: "\<not> pool_exists (test_pool None)" by (simp add: pool_exists_def test_pool_sel)
  have r1: "refresh ?E1 (test_pool None) None = Inr (test_pool (Some (test_refreshed 0)))"
    by (rule test_refresh_live)
  have s1: "snapshot (test_pool (Some (test_refreshed 0))) = Some (test_refreshed 0)
      \<and> exists (test_refreshed 0) \<and> issued_pool_tokens (test_refreshed 0) = 0"
    by (simp add: test_pool_sel test_refreshed_sel)
  have a: "fst (fetch_flexible_add_liquidity_quote ?E0 (test_pool None) ?A ?B (1 / 20))
      = Inl BootstrapIsRequired"
    using flexible_add_preconditions [where E = ?E0 and p = "test_pool None" and amount_a = ?A
        and amount_b = ?B and slippage = "1 / 20"] m r0 ne by blast
  have b: "fst (fetch_flexible_add_liquidity_quote ?E1 (test_pool None) ?A ?B (1 / 20))
      = Inl PoolHasNoLiquidity"
    using flexible_add_preconditions [where E = ?E1 and p = "test_pool None" and amount_a = ?A
        and amount_b = ?B and slippage = "1 / 20"] m r1 s1 by blast
  have c: "fetch_flexible_add_liquidity_quote ?E0 (test_pool None) ?A ?A' (1 / 20)
      = (Inl (AssertionError ''Pool assets and given assets don't match.''), test_pool None)"
    using flexible_add_preconditions [where E = ?E0 and p = "test_pool None" and amount_a = ?A
        and amount_b = ?A' and slippage = "1 / 20"] nm by blast
  have d: "fetch_flexible_add_liquidity_quote
        (?E1\<lparr>calculate_subsequent_add_liquidity := (\<lambda>r1 r2 n fee a1 a2. Inl ZeroDivisionError)\<rparr>)
        (test_pool None) ?A ?B (1 / 20)
     = fetch_flexible_add_liquidity_quote ?E1 (test_pool None) ?A ?B (1 / 20)"
    using flexible_add_preconditions [where E = ?E1 and p = "test_pool None" and amount_a = ?A
        and amount_b = ?B and slippage = "1 / 20"] b by simp
  from a b nm c d show ?thesis by simp
qed

section \<open>The single-asset add quote\<close>

text \<open>
  C6. For a pool of two distinct assets and a deposit in one of them, the single-asset add
  quote and the flexible add quote of the same deposit with the amount 0 of the other
  asset return the same minted pool-token amount and the same internal swap quote, raise
  the same error otherwise, and leave the same pool. On an active pool the minted amount
  and the internal swap are those that \<^verbatim>\<open>calculate_subsequent_add_liquidity\<close> returns for the
  deposit on its side and 0 on the other.
\<close>

theorem single_asset_add_is_flexible_with_zero:
  assumes distinct: "asset_id (asset_1 p) \<noteq> asset_id (asset_2 p)"
    and belongs: "asset_eq (asset amount_a) (asset_1 p) \<or> asset_eq (asset amount_a) (asset_2 p)"
  shows
    "map_prod (map_sum id (\<lambda>q. (saq_pool_token_asset_amount q, saq_internal_swap_quote q))) id
       (fetch_single_asset_add_liquidity_quote E p amount_a slippage)
     = map_prod (map_sum id (\<lambda>q. (faq_pool_token_asset_amount q, faq_internal_swap_quote q))) id
         (fetch_flexible_add_liquidity_quote E p amount_a (zero_of_other_asset p amount_a) slippage)
     \<and> (\<forall>p' s. refresh E p None = Inr p' \<and> snapshot p' = Some s \<and> exists s
            \<and> issued_pool_tokens s \<noteq> 0 \<longrightarrow>
          map_sum id
            (\<lambda>q. (amount (saq_pool_token_asset_amount q),
                  asset_eq (asset (isq_amount_in (saq_internal_swap_quote q))) (asset_1 p),
                  amount (isq_amount_in (saq_internal_swap_quote q)),
                  amount (isq_amount_out (saq_internal_swap_quote q)),
                  amount (isq_swap_fees (saq_internal_swap_quote q)),
                  isq_price_impact (saq_internal_swap_quote q)))
            (fst (fetch_single_asset_add_liquidity_quote E p amount_a slippage))
          = map_sum Raised id
              (if asset_eq (asset amount_a) (asset_1 p)
               then calculate_subsequent_add_liquidity E (asset_1_reserves s)
                      (asset_2_reserves s) (issued_pool_tokens s) (total_fee_share s)
                      (amount amount_a) 0
               else calculate_subsequent_add_liquidity E (asset_1_reserves s)
                      (asset_2_reserves s) (issued_pool_tokens s) (total_fee_share s)
                      0 (amount amount_a)))"
proof -
  let ?b = "zero_of_other_asset p amount_a"
  have match: "assets_match p amount_a ?b"
    using belongs by (auto simp: assets_match_def zero_of_other_asset_def asset_eq_def)
  have pick1: "(if asset_eq (asset amount_a) (asset_1 p) then amount_a else ?b)
      = (if asset_eq (asset amount_a) (asset_1 p) then amount_a
         else \<lparr> asset = asset_1 p, amount = 0 \<rparr>)"
    by (simp add: zero_of_other_asset_def)
  have pick2: "(if asset_eq (asset amount_a) (asset_2 p) then amount_a else ?b)
      = (if asset_eq (asset amount_a) (asset_1 p) then \<lparr> asset = asset_2 p, amount = 0 \<rparr>
         else amount_a)"
    using belongs distinct by (auto simp: zero_of_other_asset_def asset_eq_def)
  show ?thesis
  proof (cases "refresh E p None")
    case (Inl e)
    with match show ?thesis
      by (simp add: fetch_single_asset_add_liquidity_quote_def
            fetch_flexible_add_liquidity_quote_def)
  next
    case (Inr p')
    have ids: "asset_1 p' = asset_1 p" "asset_2 p' = asset_2 p"
      using refresh_keeps_identity [OF Inr] by simp_all
    show ?thesis
    proof (cases "snapshot p'")
      case None
      with Inr match show ?thesis
        by (simp add: fetch_single_asset_add_liquidity_quote_def
              fetch_flexible_add_liquidity_quote_def)
    next
      case (Some s)
      show ?thesis
      proof (cases "exists s \<and> issued_pool_tokens s \<noteq> 0")
        case False
        with Some Inr match show ?thesis
          by (auto simp: fetch_single_asset_add_liquidity_quote_def
                fetch_flexible_add_liquidity_quote_def)
      next
        case active: True
        show ?thesis
        proof (cases "asset_eq (asset amount_a) (asset_1 p)")
          case True
          show ?thesis
          proof (cases "calculate_subsequent_add_liquidity E (asset_1_reserves s)
                      (asset_2_reserves s) (issued_pool_tokens s) (total_fee_share s)
                      (amount amount_a) 0")
            case (Inl x)
            with True active Some Inr match ids pick1 pick2 show ?thesis
              by (simp add: fetch_single_asset_add_liquidity_quote_def
                    fetch_flexible_add_liquidity_quote_def)
          next
            case (Inr r)
            obtain m d si so f pi where r: "r = (m, d, si, so, f, pi)" by (cases r)
            from Inr r True active Some \<open>refresh E p None = Inr p'\<close> match ids pick1 pick2
              distinct
            show ?thesis
              by (simp add: fetch_single_asset_add_liquidity_quote_def
                    fetch_flexible_add_liquidity_quote_def asset_eq_def)
          qed
        next
          case False
          then have second: "asset_eq (asset amount_a) (asset_2 p)" using belongs by simp
          show ?thesis
          proof (cases "calculate_subsequent_add_liquidity E (asset_1_reserves s)
                      (asset_2_reserves s) (issued_pool_tokens s) (total_fee_share s)
                      0 (amount amount_a)")
            case (Inl x)
            with False second active Some Inr match ids pick1 pick2 show ?thesis
              by (simp add: fetch_single_asset_add_liquidity_quote_def
                    fetch_flexible_add_liquidity_quote_def)
          next
            case (Inr r)
            obtain m d si so f pi where r: "r = (m, d, si, so, f, pi)" by (cases r)
            from Inr r False second active Some \<open>refresh E p None = Inr p'\<close> match ids
              pick1 pick2 distinct
            show ?thesis
              by (simp add: fetch_single_asset_add_liquidity_quote_def
                    fetch_flexible_add_liquidity_quote_def asset_eq_def)
          qed
        qed
      qed
    qed
  qed
qed

theorem single_asset_add_is_flexible_with_zero_witness:
  "asset_id (asset_1 (test_pool None)) \<noteq> asset_id (asset_2 (test_pool None))
   \<and> asset_eq (asset \<lparr>asset = test_asset_2, amount = 500\<rparr>) (asset_2 (test_pool None))
   \<and> zero_of_other_asset (test_pool None) \<lparr>asset = test_asset_2, amount = 500\<rparr>
       = \<lparr>asset = test_asset_1, amount = 0\<rparr>
   \<and> map_prod (map_sum id (\<lambda>q. (saq_pool_token_asset_amount q, saq_internal_swap_quote q))) id
        (fetch_single_asset_add_liquidity_quote (test_env (test_account ''POOL'' 1000))
           (test_pool None) \<lparr>asset = test_asset_2, amount = 500\<rparr> (1 / 20))
     = map_prod (map_sum id (\<lambda>q. (faq_pool_token_asset_amount q, faq_internal_swap_quote q))) id
        (fetch_flexible_add_liquidity_quote (test_env (test_account ''POOL'' 1000))
           (test_pool None) \<lparr>asset = test_asset_2, amount = 500\<rparr>
           \<lparr>asset = test_asset_1, amount = 0\<rparr> (1 / 20))
   \<and> map_sum id
        (\<lambda>q. (amount (saq_pool_token_asset_amount q),
              asset_eq (asset (isq_amount_in (saq_internal_swap_quote q))) (asset_1 (test_pool None)),
              amount (isq_amount_in (saq_internal_swap_quote q)),
              amount (isq_amount_out (saq_internal_swap_quote q)),
              amount (isq_swap_fees (saq_internal_swap_quote q)),
              isq_price_impact (saq_internal_swap_quote q)))
        (fst (fetch_single_asset_add_liquidity_quote (test_env (test_account ''POOL'' 1000))
           (test_pool None) \<lparr>asset = test_asset_2, amount = 500\<rparr> (1 / 20)))
     = Inr (500, False, 500, 0, 0, 0)"
proof -
  let ?E = "test_env (test_account ''POOL'' 1000)"
  let ?A = "\<lparr>asset = test_asset_2, amount = 500\<rparr>"
  have d: "asset_id (asset_1 (test_pool None)) \<noteq> asset_id (asset_2 (test_pool None))"
    by (simp add: test_pool_sel test_asset_ids)
  have b2: "asset_eq (asset ?A) (asset_2 (test_pool None))"
    by (simp add: asset_eq_def test_pool_sel)
  then have b: "asset_eq (asset ?A) (asset_1 (test_pool None))
      \<or> asset_eq (asset ?A) (asset_2 (test_pool None))" ..
  have n1: "\<not> asset_eq (asset ?A) (asset_1 (test_pool None))"
    by (simp add: asset_eq_def test_pool_sel test_asset_ids)
  have z: "zero_of_other_asset (test_pool None) ?A = \<lparr>asset = test_asset_1, amount = 0\<rparr>"
    using n1 by (simp add: zero_of_other_asset_def test_pool_sel)
  have active: "refresh ?E (test_pool None) None = Inr (test_pool (Some (test_refreshed 1000)))
      \<and> snapshot (test_pool (Some (test_refreshed 1000))) = Some (test_refreshed 1000)
      \<and> exists (test_refreshed 1000) \<and> issued_pool_tokens (test_refreshed 1000) \<noteq> 0"
    by (simp add: test_refresh_live test_pool_sel test_refreshed_sel)
  note inst = single_asset_add_is_flexible_with_zero [OF d b, where E = ?E and slippage = "1 / 20"]
  from inst have same: "map_prod (map_sum id (\<lambda>q. (saq_pool_token_asset_amount q, saq_internal_swap_quote q))) id
        (fetch_single_asset_add_liquidity_quote ?E (test_pool None) ?A (1 / 20))
     = map_prod (map_sum id (\<lambda>q. (faq_pool_token_asset_amount q, faq_internal_swap_quote q))) id
        (fetch_flexible_add_liquidity_quote ?E (test_pool None) ?A
           \<lparr>asset = test_asset_1, amount = 0\<rparr> (1 / 20))"
    by (simp only: z)
  note direct = inst [THEN conjunct2, rule_format, OF active]
  from direct n1 have val': "map_sum id
        (\<lambda>q. (amount (saq_pool_token_asset_amount q),
              asset_eq (asset (isq_amount_in (saq_internal_swap_quote q))) (asset_1 (test_pool None)),
              amount (isq_amount_in (saq_internal_swap_quote q)),
              amount (isq_amount_out (saq_internal_swap_quote q)),
              amount (isq_swap_fees (saq_internal_swap_quote q)),
              isq_price_impact (saq_internal_swap_quote q)))
        (fst (fetch_single_asset_add_liquidity_quote ?E (test_pool None) ?A (1 / 20)))
     = Inr (500, False, 500, 0, 0, 0)"
    by (simp add: test_env_formulas test_refreshed_sel)
  from d b2 z same val' show ?thesis by (intro conjI)
qed

end
